theory Spec2Isabelle
  imports Complex_Main
begin

section \<open>Python values\<close>

text \<open>
  Python floats are modelled as rationals (every finite float is one); the rounding of
  float arithmetic is not modelled. Python ints are \<open>int\<close>; \<open>//\<close> and \<open>%\<close> on ints are
  \<open>div\<close> and \<open>mod\<close> (both round towards minus infinity). Exceptions are values of
  \<open>py_error\<close>, returned as \<open>Inl\<close>.
\<close>

datatype py_error =
  ZeroDivisionError | ValueError | TypeError | IndexError | KeyError | DeprecationWarning
| Cv2Error

text \<open>\<open>int(x)\<close> on a float, and \<open>.astype(int)\<close>: truncation towards zero.\<close>

definition py_int :: "rat \<Rightarrow> int" where
  "py_int x = (if 0 \<le> x then \<lfloor>x\<rfloor> else \<lceil>x\<rceil>)"

text \<open>\<open>x % m\<close> on floats: the result has the sign of the divisor.\<close>

definition py_fmod :: "rat \<Rightarrow> rat \<Rightarrow> rat" where
  "py_fmod x m = x - m * of_int \<lfloor>x / m\<rfloor>"

section \<open>Timing model\<close>

subsection \<open>\<open>calculate_timing_parameters\<close> (revised/fixed_turntable.py)\<close>

record timing =
  tp_rpm :: rat
  tp_rotation_time :: rat
  tp_zodiac_section_time :: rat
  tp_frames_per_rotation :: int
  tp_frames_per_zodiac_section :: int
  tp_degrees_per_frame :: rat

text \<open>
  \<open>60.0 / rpm\<close> raises for \<open>rpm = 0\<close>, and \<open>360.0 / frames_per_rotation\<close> raises when the
  truncated frame count is \<open>0\<close>.
\<close>

definition calculate_timing_parameters :: "rat \<Rightarrow> rat \<Rightarrow> py_error + timing" where
  "calculate_timing_parameters rpm fps =
     (if rpm = 0 then Inl ZeroDivisionError
      else
        let rotation_time = 60 / rpm;
            zodiac_section_time = rotation_time / 12;
            frames_per_rotation = py_int (rotation_time * fps);
            frames_per_zodiac_section = py_int (zodiac_section_time * fps)
        in if frames_per_rotation = 0 then Inl ZeroDivisionError
           else Inr \<lparr> tp_rpm = rpm,
                      tp_rotation_time = rotation_time,
                      tp_zodiac_section_time = zodiac_section_time,
                      tp_frames_per_rotation = frames_per_rotation,
                      tp_frames_per_zodiac_section = frames_per_zodiac_section,
                      tp_degrees_per_frame = 360 / of_int frames_per_rotation \<rparr>)"

text \<open>
  The frame loop of \<open>main\<close> derives the angle and the sector from the timing record:
  \<open>current_angle = (frame_count * timing['degrees_per_frame']) % 360\<close> and
  \<open>zodiac_section = int(current_angle / 30.0) % 12\<close>.
\<close>

definition current_angle :: "timing \<Rightarrow> int \<Rightarrow> rat" where
  "current_angle t frame_count = py_fmod (of_int frame_count * tp_degrees_per_frame t) 360"

definition zodiac_section_of_angle :: "rat \<Rightarrow> int" where
  "zodiac_section_of_angle angle = py_int (angle / 30) mod 12"

subsection \<open>\<open>CorrectedAudioProcessor\<close> (corrected_audio_processing.py)\<close>

text \<open>
  Only the rotation fields of the processor are kept. \<open>frames_per_rotation\<close> and
  \<open>frames_per_zodiac_section\<close> do not exist until \<open>update_fps_dependent_values\<close> has
  run; \<open>None\<close> stands for the missing attribute.
\<close>

record processor =
  cap_rpm :: rat
  cap_fps :: "rat option"
  cap_rotation_time :: rat
  cap_zodiac_section_time :: rat
  cap_frames_per_rotation :: "int option"
  cap_frames_per_zodiac_section :: "int option"
  cap_zodiac_mode :: bool

definition processor_init :: "rat \<Rightarrow> rat option \<Rightarrow> py_error + processor" where
  "processor_init rpm fps =
     (if rpm = 0 then Inl ZeroDivisionError
      else Inr \<lparr> cap_rpm = rpm, cap_fps = fps,
                 cap_rotation_time = 60 / rpm,
                 cap_zodiac_section_time = (60 / rpm) / 12,
                 cap_frames_per_rotation = None,
                 cap_frames_per_zodiac_section = None,
                 cap_zodiac_mode = True \<rparr>)"

definition update_fps_dependent_values :: "processor \<Rightarrow> rat \<Rightarrow> processor" where
  "update_fps_dependent_values p actual_fps =
     p \<lparr> cap_fps := Some actual_fps,
         cap_frames_per_rotation := Some (py_int (actual_fps * cap_rotation_time p)),
         cap_frames_per_zodiac_section :=
           Some (py_int (actual_fps * cap_zodiac_section_time p)) \<rparr>"

text \<open>
  Returns \<open>(rotation_progress, zodiac_section, angle_degrees)\<close> and the processor, which
  the call updates when the frame counts were still missing.
\<close>

definition calculate_current_position ::
  "processor \<Rightarrow> int \<Rightarrow> py_error + ((rat \<times> int \<times> rat) \<times> processor)" where
  "calculate_current_position p0 frame_count =
     (let p = (if cap_frames_per_rotation p0 = None
               then update_fps_dependent_values p0 30 else p0);
          fpr = the (cap_frames_per_rotation p);
          fpz = the (cap_frames_per_zodiac_section p)
      in if fpr = 0 then Inl ZeroDivisionError
         else
           let frames_in_current_rotation = frame_count mod fpr;
               rotation_progress = of_int frames_in_current_rotation / of_int fpr
           in if fpz = 0 then Inl ZeroDivisionError
              else
                let zodiac_section = (frame_count div fpz) mod 12;
                    angle_degrees = rotation_progress * 360
                in Inr ((rotation_progress, zodiac_section, angle_degrees), p))"


subsection \<open>The scenario helpers\<close>

text \<open>
  The sector of a frame along each of the two code paths: the processor's
  \<open>calculate_current_position\<close> after \<open>update_fps_dependent_values\<close>, and the frame
  loop's formulas over \<open>calculate_timing_parameters\<close>.
\<close>

definition processor_sector :: "rat \<Rightarrow> rat \<Rightarrow> int \<Rightarrow> py_error + int" where
  "processor_sector rpm fps frame_count =
     (case processor_init rpm None of
        Inl e \<Rightarrow> Inl e
      | Inr p \<Rightarrow>
          (case calculate_current_position (update_fps_dependent_values p fps) frame_count of
             Inl e \<Rightarrow> Inl e
           | Inr ((progress, zodiac_section, angle), _) \<Rightarrow> Inr zodiac_section))"

definition loop_sector :: "rat \<Rightarrow> rat \<Rightarrow> int \<Rightarrow> py_error + int" where
  "loop_sector rpm fps frame_count =
     (case calculate_timing_parameters rpm fps of
        Inl e \<Rightarrow> Inl e
      | Inr t \<Rightarrow> Inr (zodiac_section_of_angle (current_angle t frame_count)))"

definition frames_per_rotation_for :: "rat \<Rightarrow> rat \<Rightarrow> py_error + int" where
  "frames_per_rotation_for rpm fps =
     (case calculate_timing_parameters rpm fps of
        Inl e \<Rightarrow> Inl e
      | Inr t \<Rightarrow> Inr (tp_frames_per_rotation t))"


section \<open>Rotation recorder\<close>

subsection \<open>The deprecated mapper entry point (revised/utils/audio\_utils\_simple.py)\<close>

text \<open>
  A chord is the triple \<open>(midi_notes, velocities, durations)\<close> that the mapper functions
  return. \<open>process_roi_to_midi_data\<close> accepts any arguments, ignores them and raises
  \<open>DeprecationWarning\<close>; this is the function that fixed\_turntable.py imports.
\<close>

type_synonym chord = "int list \<times> int list \<times> rat list"

definition process_roi_to_midi_data :: "'a \<Rightarrow> py_error + chord" where
  "process_roi_to_midi_data args = Inl DeprecationWarning"

subsection \<open>Recorded data\<close>

text \<open>
  A raw region is a one-dimensional scanline (circular mode) or a two-dimensional strip
  of rows (rectangular mode). \<open>len\<close> of either is the size of its first axis.
\<close>

datatype raw_roi = Scanline "int list" | Strip "int list list"

fun roi_len :: "raw_roi \<Rightarrow> nat" where
  "roi_len (Scanline xs) = length xs"
| "roi_len (Strip rows) = length rows"

record note_data =
  nd_frame :: int
  nd_notes :: "int list"
  nd_velocities :: "int list"
  nd_durations :: "rat list"

text \<open>The dictionary \<open>self.current_rotation\<close>, which always has its four keys.\<close>

record current_rotation =
  cr_frame_start :: int
  cr_notes :: "note_data list"
  cr_zodiac_sections :: "(int \<times> int) list"
  cr_raw_rois :: "raw_roi list"

text \<open>
  An element of \<open>score_data['rotations']\<close>. A rotation rebuilt from the array file has
  the key \<open>raw_rois\<close> only, so each key is optional.
\<close>

record rotation =
  rot_frame_start :: "int option"
  rot_notes :: "note_data list option"
  rot_zodiac_sections :: "(int \<times> int) list option"
  rot_raw_rois :: "raw_roi list option"

definition rotation_copy :: "current_rotation \<Rightarrow> rotation" where
  "rotation_copy c =
     \<lparr> rot_frame_start = Some (cr_frame_start c), rot_notes = Some (cr_notes c),
       rot_zodiac_sections = Some (cr_zodiac_sections c),
       rot_raw_rois = Some (cr_raw_rois c) \<rparr>"

text \<open>\<open>score_data['metadata']\<close>, without the creation time stamp.\<close>

record metadata =
  md_rpm :: rat
  md_fps :: rat
  md_rotation_time :: rat
  md_frames_per_rotation :: int
  md_scale :: "string option"
  md_roi_mode :: "string option"

text \<open>The files the recorder writes are kept as a log of events.\<close>

datatype io_event = SaveVisualScore | SaveScore

text \<open>
  \<open>rec_rotation_time = None\<close> stands for \<open>float('inf')\<close>. The attributes \<open>start_frame\<close> and
  \<open>raw_rois_for_panorama\<close> are never read and are left out.
\<close>

record recorder =
  rec_rpm :: rat
  rec_fps :: rat
  rec_rotation_time :: "rat option"
  rec_frames_per_rotation :: int
  rec_metadata :: metadata
  rec_rotations :: "rotation list"
  rec_current_rotation :: current_rotation
  rec_is_recording :: bool
  rec_recorded_rotations :: int
  rec_max_rotations :: int
  rec_is_loaded :: bool
  rec_session_path :: "string option"
  rec_saved :: "io_event list"

subsection \<open>\<open>TurntableScoreRecorder\<close> (revised/fixed\_turntable.py)\<close>

text \<open>
  \<open>__init__\<close> divides by \<open>rpm\<close> before it reaches its own \<open>rpm > 0\<close> guard, so
  \<open>rpm = 0\<close> raises.
\<close>

definition recorder_init :: "rat \<Rightarrow> rat \<Rightarrow> py_error + recorder" where
  "recorder_init rpm fps =
     (if rpm = 0 then Inl ZeroDivisionError
      else
        Inr \<lparr> rec_rpm = rpm, rec_fps = fps,
              rec_rotation_time = (if rpm > 0 then Some (60 / rpm) else None),
              rec_frames_per_rotation = (if rpm > 0 then py_int ((60 / rpm) * fps) else 0),
              rec_metadata =
                \<lparr> md_rpm = rpm, md_fps = fps, md_rotation_time = 60 / rpm,
                  md_frames_per_rotation = py_int ((60 / rpm) * fps),
                  md_scale = None, md_roi_mode = None \<rparr>,
              rec_rotations = [],
              rec_current_rotation =
                \<lparr> cr_frame_start = 0, cr_notes = [], cr_zodiac_sections = [],
                  cr_raw_rois = [] \<rparr>,
              rec_is_recording = False, rec_recorded_rotations = 0,
              rec_max_rotations = 1, rec_is_loaded = False,
              rec_session_path = None, rec_saved = [] \<rparr>)"

text \<open>
  The session folder name is built from the clock, the mode, the scale and the rpm; it
  is passed in as \<open>folder_name\<close>.
\<close>

definition start_recording :: "recorder \<Rightarrow> int \<Rightarrow> string \<Rightarrow> string \<Rightarrow> string \<Rightarrow> recorder" where
  "start_recording r frame_count scale roi_mode folder_name =
     r \<lparr> rec_is_recording := True,
         rec_recorded_rotations := 0,
         rec_current_rotation := (rec_current_rotation r) \<lparr> cr_frame_start := frame_count \<rparr>,
         rec_metadata := (rec_metadata r) \<lparr> md_scale := Some scale, md_roi_mode := Some roi_mode \<rparr>,
         rec_session_path := Some (''data/'' @ folder_name) \<rparr>"

definition add_notes ::
  "recorder \<Rightarrow> int \<Rightarrow> int list \<Rightarrow> int list \<Rightarrow> rat list \<Rightarrow> raw_roi \<Rightarrow> int option \<Rightarrow> recorder" where
  "add_notes r frame_count midi_notes velocities durations raw_roi zodiac_section =
     (if \<not> rec_is_recording r then r
      else
        let c = rec_current_rotation r;
            relative_frame = frame_count - cr_frame_start c;
            note = \<lparr> nd_frame = relative_frame, nd_notes = midi_notes,
                     nd_velocities = velocities, nd_durations = durations \<rparr>;
            c1 = c \<lparr> cr_notes := cr_notes c @ [note],
                     cr_raw_rois := cr_raw_rois c @ [raw_roi] \<rparr>;
            c2 = (case zodiac_section of
                    None \<Rightarrow> c1
                  | Some z \<Rightarrow>
                      if z \<noteq> 0
                      then c1 \<lparr> cr_zodiac_sections :=
                                  cr_zodiac_sections c1 @ [(relative_frame, z)] \<rparr>
                      else c1)
        in r \<lparr> rec_current_rotation := c2 \<rparr>)"

text \<open>
  \<open>save_visual_score\<close> and \<open>save_score\<close> return early without a session path (and the
  first one without regions); otherwise they write their files inside a \<open>try\<close> block.
\<close>

definition save_visual_score :: "recorder \<Rightarrow> raw_roi list \<Rightarrow> recorder" where
  "save_visual_score r roi_list =
     (if rec_session_path r = None then r
      else if roi_list = [] then r
      else r \<lparr> rec_saved := rec_saved r @ [SaveVisualScore] \<rparr>)"

definition save_score :: "recorder \<Rightarrow> recorder" where
  "save_score r =
     (if rec_session_path r = None then r
      else r \<lparr> rec_saved := rec_saved r @ [SaveScore] \<rparr>)"

definition stop_recording :: "recorder \<Rightarrow> recorder" where
  "stop_recording r =
     (if \<not> rec_is_recording r then r
      else save_score (r \<lparr> rec_is_recording := False \<rparr>))"

definition check_rotation_complete :: "recorder \<Rightarrow> int \<Rightarrow> bool \<times> recorder" where
  "check_rotation_complete r frame_count =
     (if \<not> rec_is_recording r then (False, r)
      else
        let relative_frame = frame_count - cr_frame_start (rec_current_rotation r)
        in if relative_frame \<ge> rec_frames_per_rotation r
           then
             let r1 = (if rec_recorded_rotations r = 0
                       then save_visual_score r (cr_raw_rois (rec_current_rotation r))
                       else r);
                 r2 = r1 \<lparr> rec_recorded_rotations := rec_recorded_rotations r1 + 1,
                          rec_rotations :=
                            rec_rotations r1 @ [rotation_copy (rec_current_rotation r1)] \<rparr>;
                 r3 = r2 \<lparr> rec_current_rotation :=
                            \<lparr> cr_frame_start = frame_count, cr_notes = [],
                              cr_zodiac_sections = [], cr_raw_rois = [] \<rparr> \<rparr>
             in if rec_recorded_rotations r3 \<ge> rec_max_rotations r3
                then (True, stop_recording r3)
                else (False, r3)
           else (False, r))"

subsection \<open>Playback\<close>

text \<open>
  \<open>np.linspace(0, n - 1, 88, dtype=int)\<close>, the \<open>88\<close> truncated sample positions, and the
  resampling of \<open>process_circular_roi_to_midi_data\<close>: longer inputs are sampled at those
  positions, shorter ones are tiled and cut; \<open>reshape(-1, 1)\<close> then makes a column.
\<close>

definition linspace_indices :: "nat \<Rightarrow> nat list" where
  "linspace_indices n = map (\<lambda>k. nat (py_int (of_nat k * of_nat (n - 1) / 87))) [0..<88]"

definition tile_count :: "nat \<Rightarrow> nat" where
  "tile_count n = (88 + n - 1) div n"

fun resample_88 :: "raw_roi \<Rightarrow> raw_roi" where
  "resample_88 (Scanline xs) =
     Scanline (if length xs > 88 then map (\<lambda>i. xs ! i) (linspace_indices (length xs))
               else take 88 (concat (replicate (tile_count (length xs)) xs)))"
| "resample_88 (Strip rows) =
     Strip (if length rows > 88 then map (\<lambda>i. rows ! i) (linspace_indices (length rows))
            else take 88 (map (\<lambda>row. concat (replicate (tile_count (length rows)) row)) rows))"

fun reshape_column :: "raw_roi \<Rightarrow> raw_roi" where
  "reshape_column (Scanline xs) = Strip (map (\<lambda>x. [x]) xs)"
| "reshape_column (Strip rows) = Strip (map (\<lambda>x. [x]) (concat rows))"

definition process_circular_roi_to_midi_data ::
  "raw_roi \<Rightarrow> string option \<Rightarrow> py_error + chord" where
  "process_circular_roi_to_midi_data scanline_values scale =
     (if roi_len scanline_values = 0 then Inr ([], [], [])
      else process_roi_to_midi_data
             (reshape_column (resample_88 scanline_values), scale,
              (32 :: rat, 127 :: rat), (4/5 :: rat, 9/5 :: rat)))"

definition get_playback_notes_from_npy :: "recorder \<Rightarrow> int \<Rightarrow> py_error + chord" where
  "get_playback_notes_from_npy r frame_count =
     (case rec_rotations r of
        [] \<Rightarrow> Inr ([], [], [])
      | rot # _ \<Rightarrow>
          (case rot_raw_rois rot of
             None \<Rightarrow> Inr ([], [], [])
           | Some rois \<Rightarrow>
               if rois = [] then Inr ([], [], [])
               else
                 let relative_frame = frame_count mod int (length rois);
                     roi_gray = rois ! nat relative_frame;
                     scale = md_scale (rec_metadata r)
                 in if md_roi_mode (rec_metadata r) = Some ''circular''
                    then process_circular_roi_to_midi_data roi_gray scale
                    else process_roi_to_midi_data (roi_gray, scale)))"

fun find_note_data :: "note_data list \<Rightarrow> int \<Rightarrow> chord" where
  "find_note_data [] relative_frame = ([], [], [])"
| "find_note_data (n # ns) relative_frame =
     (if nd_frame n = relative_frame then (nd_notes n, nd_velocities n, nd_durations n)
      else find_note_data ns relative_frame)"

definition get_playback_notes :: "recorder \<Rightarrow> int \<Rightarrow> py_error + chord" where
  "get_playback_notes r frame_count =
     (case rec_rotations r of
        [] \<Rightarrow> Inr ([], [], [])
      | rot # _ \<Rightarrow>
          if rec_frames_per_rotation r = 0 then Inl ZeroDivisionError
          else
            (case rot_notes rot of
               None \<Rightarrow> Inl KeyError
             | Some notes \<Rightarrow>
                 Inr (find_note_data notes (frame_count mod rec_frames_per_rotation r))))"

text \<open>
  The array part of \<open>load_score_from_session\<close>: the stored array has one column per
  frame, and each column becomes one raw region of a single rotation that has no other
  key. \<open>score_array\<close> is given as its list of rows.
\<close>

definition array_columns :: "int list list \<Rightarrow> nat" where
  "array_columns score_array = (case score_array of [] \<Rightarrow> 0 | row # _ \<Rightarrow> length row)"

definition rotations_from_npy :: "string option \<Rightarrow> int list list \<Rightarrow> rotation list" where
  "rotations_from_npy roi_mode score_array =
     [\<lparr> rot_frame_start = None, rot_notes = None, rot_zodiac_sections = None,
        rot_raw_rois =
          Some (map (\<lambda>i. if roi_mode = Some ''circular''
                          then Scanline (map (\<lambda>row. row ! i) score_array)
                          else Strip (map (\<lambda>row. [row ! i]) score_array))
                    [0..<array_columns score_array]) \<rparr>]"

definition load_npy :: "recorder \<Rightarrow> int list list \<Rightarrow> recorder" where
  "load_npy r score_array =
     r \<lparr> rec_rotations := rotations_from_npy (md_roi_mode (rec_metadata r)) score_array \<rparr>"

text \<open>
  \<open>load_score_from_session\<close>. \<open>json\<close> is the content of the score file when it exists and
  parses, \<open>npy\<close> the stored array when it exists and loads. The rotation time is recomputed
  from the loaded rpm, which raises for \<open>0\<close>.
\<close>

definition load_score_from_session ::
  "recorder \<Rightarrow> (metadata \<times> rotation list) option \<Rightarrow> int list list option \<Rightarrow>
   py_error + (bool \<times> recorder)" where
  "load_score_from_session r json npy =
     (case (case json of
              None \<Rightarrow> Inr (False, r)
            | Some (md, rots) \<Rightarrow>
                if md_rpm md = 0 then Inl ZeroDivisionError
                else Inr (True,
                          r \<lparr> rec_metadata := md, rec_rotations := rots,
                              rec_rpm := md_rpm md, rec_fps := md_fps md,
                              rec_rotation_time := Some (60 / md_rpm md),
                              rec_frames_per_rotation :=
                                py_int ((60 / md_rpm md) * md_fps md) \<rparr>)) of
        Inl e \<Rightarrow> Inl e
      | Inr (loaded, r1) \<Rightarrow>
          (case npy of
             None \<Rightarrow> Inr (loaded, r1 \<lparr> rec_is_loaded := True \<rparr>)
           | Some score_array \<Rightarrow>
               Inr (True, (load_npy r1 score_array) \<lparr> rec_is_loaded := True \<rparr>)))"

text \<open>A sequence of recorder calls of the frame loop, and the results of its checks.\<close>

datatype recorder_call =
  Check int
| Add int "int list" "int list" "rat list" raw_roi "int option"

fun run_calls :: "recorder \<Rightarrow> recorder_call list \<Rightarrow> bool list \<times> recorder" where
  "run_calls r [] = ([], r)"
| "run_calls r (Check f # cs) =
     (let (b, r1) = check_rotation_complete r f;
          (bs, r2) = run_calls r1 cs
      in (b # bs, r2))"
| "run_calls r (Add f ns vs ds roi z # cs) = run_calls (add_notes r f ns vs ds roi z) cs"

fun check_frames :: "recorder_call list \<Rightarrow> int list" where
  "check_frames [] = []"
| "check_frames (Check f # cs) = f # check_frames cs"
| "check_frames (Add f ns vs ds roi z # cs) = check_frames cs"


section \<open>Linear value mapper: \<open>ValMapper\<close> (revised/utils/audio\_utils\_simple.py)\<close>

subsection \<open>Floating point numbers\<close>

text \<open>
  A Python float and an element of a \<open>float64\<close> array is an IEEE double: a finite value,
  an infinity or \<open>nan\<close>. The finite doubles are among the values \<open>Fin r\<close> with
  \<open>\<bar>r\<bar> \<le> max_float\<close>; the two zeros are not told apart (they compare equal, and the
  mapper divides by no zero). \<open>rnd\<close> is the rounding of an exact result to the nearest
  double with an unbounded exponent range; a rounded result beyond \<open>max_float\<close> overflows
  to an infinity. Python and numpy raise on none of these operations (numpy warns).
\<close>

datatype pyfloat = Fin rat | PInf | NInf | NaN

definition max_float :: rat where
  "max_float = (2 ^ 53 - 1) * 2 ^ 971"

definition fl :: "(rat \<Rightarrow> rat) \<Rightarrow> rat \<Rightarrow> pyfloat" where
  "fl rnd x =
     (let r = rnd x
      in if max_float < r then PInf else if r < - max_float then NInf else Fin r)"






text \<open>
  The comparison \<open>x < y\<close>, which is false when either side is \<open>nan\<close>, and \<open>x \<le> y\<close> on numbers.
\<close>

fun fless :: "pyfloat \<Rightarrow> pyfloat \<Rightarrow> bool" where
  "fless (Fin a) (Fin b) = (a < b)"
| "fless NaN y = False"
| "fless x NaN = False"
| "fless x NInf = False"
| "fless NInf y = True"
| "fless PInf y = False"
| "fless x PInf = True"



text \<open>
  \<open>np.clip(a, lo, hi)\<close> on floats is \<open>min(max(a, lo), hi)\<close> where both operations return
  their first argument when it is \<open>nan\<close>, and otherwise compare with \<open>>\<close> and \<open><\<close>.
\<close>

definition clip_max :: "pyfloat \<Rightarrow> pyfloat \<Rightarrow> pyfloat" where
  "clip_max a b = (if a = NaN then a else if fless b a then a else b)"

definition clip_min :: "pyfloat \<Rightarrow> pyfloat \<Rightarrow> pyfloat" where
  "clip_min a b = (if a = NaN then a else if fless a b then a else b)"

definition np_clip :: "pyfloat \<Rightarrow> pyfloat \<Rightarrow> pyfloat \<Rightarrow> pyfloat" where
  "np_clip a lo hi = clip_min (clip_max a lo) hi"

subsection \<open>Arrays\<close>

text \<open>
  \<open>np.array(input_values)\<close> is an \<open>int64\<close> array when all inputs are Python ints and a
  \<open>float64\<close> array when they are floats. An \<open>int64\<close> array enters float arithmetic by
  conversion of each element. \<open>np.full_like\<close> keeps the element type of its first
  argument, so a fill value is cast to \<open>int64\<close> when that array is an integer array: the
  cast truncates towards zero, and \<open>cast_invalid\<close> is what the platform gives for \<open>nan\<close>,
  an infinity or a value outside the \<open>int64\<close> range.
\<close>

datatype ndarray = IntArray "int list" | FloatArray "pyfloat list"

fun array_values :: "(rat \<Rightarrow> rat) \<Rightarrow> ndarray \<Rightarrow> pyfloat list" where
  "array_values rnd (IntArray xs) = map (\<lambda>n. fl rnd (of_int n)) xs"
| "array_values rnd (FloatArray xs) = xs"

definition cast_int64 :: "(pyfloat \<Rightarrow> int) \<Rightarrow> pyfloat \<Rightarrow> int" where
  "cast_int64 cast_invalid v =
     (case v of
        Fin r \<Rightarrow> if - (2 ^ 63) \<le> py_int r \<and> py_int r < 2 ^ 63 then py_int r
                 else cast_invalid v
      | _ \<Rightarrow> cast_invalid v)"

fun np_full_like :: "(pyfloat \<Rightarrow> int) \<Rightarrow> ndarray \<Rightarrow> pyfloat \<Rightarrow> ndarray" where
  "np_full_like cast_invalid (IntArray xs) v =
     IntArray (replicate (length xs) (cast_int64 cast_invalid v))"
| "np_full_like cast_invalid (FloatArray xs) v = FloatArray (replicate (length xs) v)"

subsection \<open>The mapper\<close>









section \<open>Rotation estimator: \<open>RotationDetector\<close> (revised/utils/rotation\_utils.py)\<close>

subsection \<open>Frames\<close>

text \<open>
  A frame is an array of shape \<open>(height, width)\<close> or \<open>(height, width, channels)\<close>;
  \<open>fr_channels = None\<close> stands for the two-dimensional (grayscale) shape, and \<open>fr_data\<close>
  gives the sample at row \<open>y\<close>, column \<open>x\<close> and channel \<open>c\<close>. Indexing a two-dimensional
  frame with \<open>[y, x]\<close> gives a scalar, indexing a frame with a channel axis gives the
  array of its channels (blue, green, red for a colour frame).
\<close>

datatype pixel = Scalar int | Channels "int list"

record frame =
  fr_height :: nat
  fr_width :: nat
  fr_channels :: "nat option"
  fr_data :: "nat \<Rightarrow> nat \<Rightarrow> nat \<Rightarrow> int"

definition fr_pixel :: "frame \<Rightarrow> nat \<Rightarrow> nat \<Rightarrow> pixel" where
  "fr_pixel f y x =
     (case fr_channels f of
        None \<Rightarrow> Scalar (fr_data f y x 0)
      | Some c \<Rightarrow> Channels (map (fr_data f y x) [0..<c]))"

text \<open>
  \<open>cv2.cvtColor(img, cv2.COLOR_BGR2GRAY)\<close> raises \<open>cv2.error\<close> unless the image has three or
  four channels and is not empty.
\<close>

definition bgr_channels :: "frame \<Rightarrow> bool" where
  "bgr_channels f \<longleftrightarrow> fr_channels f = Some 3 \<or> fr_channels f = Some 4"

definition bgr_frame :: "frame \<Rightarrow> bool" where
  "bgr_frame f \<longleftrightarrow> 0 < fr_height f \<and> 0 < fr_width f \<and> bgr_channels f"

subsection \<open>The detector\<close>

text \<open>
  Key points are image positions, descriptors are byte strings. The feature detector
  (\<open>orb.detectAndCompute\<close>) is a parameter: it takes the frame and the optional circular
  mask \<open>(center_x, center_y, radius)\<close> and returns the key points with their descriptors,
  or no descriptor array at all when it finds nothing.
\<close>

type_synonym keypoint = "rat \<times> rat"
type_synonym descriptor = "nat list"
type_synonym orb = "frame \<Rightarrow> (nat \<times> nat \<times> nat) option \<Rightarrow> keypoint list \<times> descriptor list option"

record detector =
  rd_fps :: rat
  rd_buffer_size :: nat
  rd_reference_kp :: "keypoint list option"
  rd_reference_des :: "descriptor list option"
  rd_last_angle :: rat
  rd_rpm :: rat
  rd_rpm_buffer :: "rat list"

definition detector_init :: "rat \<Rightarrow> nat \<Rightarrow> detector" where
  "detector_init fps buffer_size =
     \<lparr> rd_fps = fps, rd_buffer_size = buffer_size, rd_reference_kp = None,
       rd_reference_des = None, rd_last_angle = 0, rd_rpm = 0, rd_rpm_buffer = [] \<rparr>"

definition central_mask :: "frame \<Rightarrow> nat \<times> nat \<times> nat" where
  "central_mask f = (fr_width f div 2, fr_height f div 2, min (fr_width f) (fr_height f) div 3)"

text \<open>
  \<open>set_reference_frame\<close> has no \<open>raise\<close> of its own: without a frame it returns at once.
  With one it converts the frame to gray, which fails on a frame that is not a colour
  frame, then stores whatever the detector returns and prints one of two messages.
\<close>

definition set_reference_frame :: "orb \<Rightarrow> detector \<Rightarrow> frame option \<Rightarrow> py_error + detector" where
  "set_reference_frame detect d frame =
     (case frame of
        None \<Rightarrow> Inr d
      | Some f \<Rightarrow>
          if \<not> bgr_frame f then Inl Cv2Error
          else
            let (kp, des) = detect f (Some (central_mask f))
            in Inr (d \<lparr> rd_reference_kp := Some kp, rd_reference_des := des,
                        rd_last_angle := 0, rd_rpm_buffer := [] \<rparr>))"

text \<open>
  What the vision calls of \<open>calculate_rpm\<close> return for the current frame: the number of
  descriptors found (\<open>None\<close> when there is no descriptor array), the number of matches
  against the reference, and the rotation angle in degrees of the fitted transform,
  \<open>np.degrees(np.arctan2(M[1, 0], M[0, 0]))\<close> (\<open>None\<close> when no transform was fitted).
\<close>

record observation =
  ob_current_des :: "nat option"
  ob_matches :: nat
  ob_angle :: "rat option"

text \<open>The wrap-around handling of the angle difference (lines 99 to 103).\<close>

definition angle_delta :: "rat \<Rightarrow> rat \<Rightarrow> rat" where
  "angle_delta angle last_angle =
     (let angle_diff = angle - last_angle
      in if angle_diff > 180 then angle_diff - 360
         else if angle_diff < - 180 then angle_diff + 360
         else angle_diff)"

text \<open>\<open>deque(maxlen=n).append\<close> drops from the left once the buffer is full.\<close>

definition deque_append :: "nat \<Rightarrow> rat list \<Rightarrow> rat \<Rightarrow> rat list" where
  "deque_append maxlen buf x = (let b = buf @ [x] in drop (length b - maxlen) b)"

definition np_mean :: "rat list \<Rightarrow> rat" where
  "np_mean xs = sum_list xs / of_nat (length xs)"

text \<open>
  \<open>calculate_rpm\<close>; \<open>None\<close> for the observation stands for a missing current frame. The
  mean is taken over a buffer that holds at least the value just appended (the buffer
  size is positive, \<open>30\<close> by default).
\<close>

definition calculate_rpm :: "detector \<Rightarrow> observation option \<Rightarrow> rat \<times> detector" where
  "calculate_rpm d current =
     (case current of
        None \<Rightarrow> (0, d)
      | Some ob \<Rightarrow>
          if rd_reference_des d = None then (0, d)
          else
            (case ob_current_des ob of
               None \<Rightarrow> (rd_rpm d, d)
             | Some n_des \<Rightarrow>
                 if n_des < 10 then (rd_rpm d, d)
                 else
                   let good_matches = min 25 (ob_matches ob)
                   in if good_matches < 10 then (rd_rpm d, d)
                      else
                        (case ob_angle ob of
                           None \<Rightarrow> (rd_rpm d, d)
                         | Some angle \<Rightarrow>
                             let angle_diff = angle_delta angle (rd_last_angle d);
                                 angular_velocity_dps = angle_diff * rd_fps d;
                                 current_rpm = \<bar>angular_velocity_dps / 6\<bar>;
                                 buf = deque_append (rd_buffer_size d) (rd_rpm_buffer d)
                                         current_rpm;
                                 rpm = np_mean buf
                             in (rpm, d \<lparr> rd_last_angle := angle, rd_rpm_buffer := buf,
                                         rd_rpm := rpm \<rparr>))))"

section \<open>Pixel to music mapper: \<open>generate_midi_from_roi\<close> (revised/utils/audio\_utils\_simple.py)\<close>

subsection \<open>Configuration\<close>

text \<open>
  The configuration dictionary with the keys the mapper reads; \<open>None\<close> is a missing key,
  for which \<open>.get\<close> supplies the default. A scale definition is kept as the list of notes it
  denotes (the \<open>Piano\<close> entry is a Python expression that the code evaluates, falling back
  to the full range when that fails).
\<close>

record config =
  cfg_sampling_mode :: "string option"
  cfg_note_count_max :: "int option"
  cfg_velocity_range :: "(rat \<times> rat) option"
  cfg_velocity_threshold :: "rat option"
  cfg_default_scale :: "string option"
  cfg_definitions :: "string \<Rightarrow> int list option"

definition default_config :: config where
  "default_config =
     \<lparr> cfg_sampling_mode = None, cfg_note_count_max = None, cfg_velocity_range = None,
       cfg_velocity_threshold = None, cfg_default_scale = None,
       cfg_definitions = (\<lambda>name. None) \<rparr>"

definition config_sampling_mode :: "config \<Rightarrow> string" where
  "config_sampling_mode c = (case cfg_sampling_mode c of None \<Rightarrow> ''importance'' | Some m \<Rightarrow> m)"

definition config_note_count_max :: "config \<Rightarrow> int" where
  "config_note_count_max c = (case cfg_note_count_max c of None \<Rightarrow> 5 | Some n \<Rightarrow> n)"

definition config_velocity_range :: "config \<Rightarrow> rat \<times> rat" where
  "config_velocity_range c = (case cfg_velocity_range c of None \<Rightarrow> (32, 127) | Some r \<Rightarrow> r)"

definition config_velocity_threshold :: "config \<Rightarrow> rat" where
  "config_velocity_threshold c = (case cfg_velocity_threshold c of None \<Rightarrow> 32 | Some t \<Rightarrow> t)"

definition config_scale_notes :: "config \<Rightarrow> int list" where
  "config_scale_notes c =
     (let scale_name = (case cfg_default_scale c of None \<Rightarrow> ''Piano'' | Some n \<Rightarrow> n)
      in case cfg_definitions c scale_name of None \<Rightarrow> [21..108] | Some notes \<Rightarrow> notes)"

subsection \<open>Library functions\<close>

text \<open>
  The mean of a row (\<open>nan\<close>, here \<open>None\<close>, for an empty one), \<open>np.interp\<close> over two points,
  \<open>argmin\<close> (the first position of the least element), a slice \<open>xs[:n]\<close>, and
  \<open>random.shuffle\<close>, which for \<open>i\<close> from the last position down to \<open>1\<close> swaps position \<open>i\<close>
  with a random position \<open>j \<le> i\<close>; \<open>randbelow i\<close> supplies the draw of step \<open>i\<close>.
\<close>

definition row_mean :: "int list \<Rightarrow> rat option" where
  "row_mean row =
     (if row = [] then None else Some (of_int (sum_list row) / of_nat (length row)))"

definition np_interp :: "rat \<Rightarrow> rat \<times> rat \<Rightarrow> rat \<times> rat \<Rightarrow> rat" where
  "np_interp x xp fp =
     (if x \<le> fst xp then fst fp
      else if snd xp \<le> x then snd fp
      else fst fp + (x - fst xp) * ((snd fp - fst fp) / (snd xp - fst xp)))"

fun argmin :: "int list \<Rightarrow> nat" where
  "argmin [] = 0"
| "argmin [x] = 0"
| "argmin (x # y # ys) =
     (let k = argmin (y # ys) in if x \<le> (y # ys) ! k then 0 else Suc k)"

definition py_take :: "int \<Rightarrow> 'a list \<Rightarrow> 'a list" where
  "py_take n xs = (if 0 \<le> n then take (nat n) xs else take (length xs - nat (- n)) xs)"

fun shuffle_from :: "(nat \<Rightarrow> nat) \<Rightarrow> nat \<Rightarrow> 'a list \<Rightarrow> 'a list" where
  "shuffle_from randbelow 0 xs = xs"
| "shuffle_from randbelow (Suc k) xs =
     (let i = Suc k; j = randbelow i mod (i + 1)
      in shuffle_from randbelow k (xs[i := xs ! j, j := xs ! i]))"

definition random_shuffle :: "(nat \<Rightarrow> nat) \<Rightarrow> 'a list \<Rightarrow> 'a list" where
  "random_shuffle randbelow xs = shuffle_from randbelow (length xs - 1) xs"

subsection \<open>The mapper\<close>

definition piano_notes :: "int list" where
  "piano_notes = rev [21..108]"

text \<open>
  The candidate loop over the 88 rows, each given as its piano note and its magnitude.
  A row is quantised to the nearest available note; its velocity is interpolated from
  the magnitude (a \<open>nan\<close> magnitude gives a \<open>nan\<close> velocity, which passes no comparison);
  it becomes a candidate when the velocity reaches the threshold and the note is new.
\<close>

fun add_candidates ::
  "int list \<Rightarrow> rat \<times> rat \<Rightarrow> rat \<Rightarrow> (int \<times> rat option) list \<Rightarrow> (int \<times> rat) list \<Rightarrow>
   (int \<times> rat) list" where
  "add_candidates available vel_range vel_threshold [] candidates = candidates"
| "add_candidates available vel_range vel_threshold ((piano_note, magnitude) # rows) candidates =
     (let note_index = argmin (map (\<lambda>n. \<bar>n - piano_note\<bar>) available);
          mapped_note = available ! note_index
      in case magnitude of
           None \<Rightarrow> add_candidates available vel_range vel_threshold rows candidates
         | Some m \<Rightarrow>
             let velocity = np_interp m (100, 255) vel_range
             in if velocity \<ge> vel_threshold \<and> mapped_note \<notin> set (map fst candidates)
                then add_candidates available vel_range vel_threshold rows
                       (candidates @ [(mapped_note, velocity)])
                else add_candidates available vel_range vel_threshold rows candidates)"

text \<open>
  The steps of \<open>generate_midi_from_roi\<close>. \<open>resize_row img i\<close> is row \<open>i\<close> of
  \<open>cv.resize(img, (width, 88))\<close>; inverting and converting to \<open>uint8\<close> is
  \<open>(255 - v) mod 256\<close>. The scale is cut down to the piano range, in descending order.
  Row \<open>i\<close> of the 88 rows is paired with \<open>piano_notes[i]\<close>.
\<close>

definition roi_magnitudes :: "(int list list \<Rightarrow> nat \<Rightarrow> int list) \<Rightarrow> int list list \<Rightarrow> rat option list" where
  "roi_magnitudes resize_row roi =
     (let roi_inverted = map (map (\<lambda>v. (255 - v) mod 256)) roi;
          roi_normalized =
            (if length roi_inverted \<noteq> 88
             then map (resize_row roi_inverted) [0..<88]
             else roi_inverted)
      in map row_mean roi_normalized)"

definition available_notes :: "int list \<Rightarrow> int list" where
  "available_notes scale_notes = rev (sort (filter (\<lambda>n. n \<in> set scale_notes) piano_notes))"

definition candidate_rows :: "rat option list \<Rightarrow> (int \<times> rat option) list" where
  "candidate_rows magnitudes = map (\<lambda>i. (piano_notes ! i, magnitudes ! i)) [0..<88]"

text \<open>
  The final selection: a shuffle or a descending stable sort by velocity (an ascending
  stable sort by the negated velocity), then the slice \<open>[:note_count_max]\<close>.
\<close>

definition select_notes ::
  "string \<Rightarrow> int \<Rightarrow> (nat \<Rightarrow> nat) \<Rightarrow> (int \<times> rat) list \<Rightarrow> (int \<times> rat) list" where
  "select_notes sampling_mode note_count_max randbelow candidates =
     (if sampling_mode = ''random''
      then py_take note_count_max (random_shuffle randbelow candidates)
      else py_take note_count_max (sort_key (\<lambda>c. - snd c) candidates))"

text \<open>\<open>random k\<close> is the \<open>k\<close>-th unit draw behind \<open>random.uniform(500, 3000)\<close>.\<close>

definition output_chord :: "(nat \<Rightarrow> rat) \<Rightarrow> (int \<times> rat) list \<Rightarrow> chord" where
  "output_chord random final_notes =
     (let output_notes = map fst final_notes;
          output_velocities = map (\<lambda>c. py_int (snd c)) final_notes;
          output_durations = map (\<lambda>k. 500 + 2500 * random k) [0..<length output_notes]
      in (output_notes, output_velocities, output_durations))"

text \<open>
  \<open>generate_midi_from_roi\<close>. The region is a two-dimensional array given as its rows,
  \<open>None\<close> when the argument is not an array.
\<close>

definition generate_midi_from_roi ::
  "(int list list \<Rightarrow> nat \<Rightarrow> int list) \<Rightarrow> (nat \<Rightarrow> nat) \<Rightarrow> (nat \<Rightarrow> rat) \<Rightarrow>
   int list list option \<Rightarrow> config \<Rightarrow> chord" where
  "generate_midi_from_roi resize_row randbelow random roi_gray config =
     (case roi_gray of
        None \<Rightarrow> ([], [], [])
      | Some roi \<Rightarrow>
          if concat roi = [] then ([], [], [])
          else
            let sampling_mode = config_sampling_mode config;
                note_count_max = config_note_count_max config;
                vel_range = config_velocity_range config;
                vel_threshold = config_velocity_threshold config;
                scale_notes = config_scale_notes config;
                magnitudes = roi_magnitudes resize_row roi;
                available_scale_notes = available_notes scale_notes
            in if available_scale_notes = [] then ([], [], [])
               else
                 let candidates =
                       add_candidates available_scale_notes vel_range vel_threshold
                         (candidate_rows magnitudes) []
                 in if candidates = [] then ([], [], [])
                    else output_chord random
                           (select_notes sampling_mode note_count_max randbelow candidates))"

text \<open>
  Regions of one repeated pixel value, with 88 rows and with any number of rows, and a
  resize function that repeats rows. \<open>cv.resize\<close> with linear interpolation takes each
  output pixel from neighbouring input pixels with weights that sum to one, so that it
  maps a region of one value to 88 rows of that value; \<open>resize_keeps_constant\<close> says this of
  a resize function for one height, width and value.
\<close>

definition uniform_roi :: "nat \<Rightarrow> int \<Rightarrow> int list list" where
  "uniform_roi w v = replicate 88 (replicate w v)"



definition nearest_row :: "int list list \<Rightarrow> nat \<Rightarrow> int list" where
  "nearest_row img i = img ! ((i * length img) div 88)"

definition first_draw :: "nat \<Rightarrow> nat" where
  "first_draw i = 0"

definition mid_draw :: "nat \<Rightarrow> rat" where
  "mid_draw k = 1 / 2"

definition three_note_config :: config where
  "three_note_config =
     default_config \<lparr> cfg_note_count_max := Some (- 1),
                      cfg_definitions := [''Piano'' \<mapsto> [60, 62, 64]] \<rparr>"

section \<open>Scanline extraction\<close>

text \<open>
  The sample at radius \<open>r\<close> along a direction, given by the cosine and the sine of the
  scan angle as the code computes them once per call, and the bounds test of both
  radial variants.
\<close>

definition radial_point :: "int \<Rightarrow> int \<Rightarrow> rat \<Rightarrow> rat \<Rightarrow> nat \<Rightarrow> int \<times> int" where
  "radial_point center_x center_y cos_a sin_a r =
     (py_int (of_int center_x + of_nat r * cos_a), py_int (of_int center_y + of_nat r * sin_a))"

definition in_frame :: "frame \<Rightarrow> int \<times> int \<Rightarrow> bool" where
  "in_frame f p \<longleftrightarrow>
     0 \<le> fst p \<and> fst p < int (fr_width f) \<and> 0 \<le> snd p \<and> snd p < int (fr_height f)"

definition pixel_at :: "frame \<Rightarrow> int \<times> int \<Rightarrow> pixel" where
  "pixel_at f p = fr_pixel f (nat (snd p)) (nat (fst p))"

subsection \<open>\<open>extract_radial_scanline\<close> (revised/fixed\_turntable.py)\<close>

text \<open>
  Without a given \<open>max_radius\<close> the code takes the largest distance from the centre to a
  frame corner; only \<open>int(max_radius)\<close> is used, which is the largest integer square root
  of the four squared distances.
\<close>

definition floor_sqrt :: "nat \<Rightarrow> nat" where
  "floor_sqrt n = length (filter (\<lambda>k. k * k \<le> n) [1..<Suc n])"

definition radius_samples :: "frame \<Rightarrow> int \<Rightarrow> int \<Rightarrow> rat option \<Rightarrow> int" where
  "radius_samples f center_x center_y max_radius =
     (case max_radius of
        Some m \<Rightarrow> py_int m
      | None \<Rightarrow>
          let w = int (fr_width f); h = int (fr_height f);
              dist = (\<lambda>c. int (floor_sqrt (nat ((fst c - center_x)\<^sup>2 + (snd c - center_y)\<^sup>2))))
          in fold (\<lambda>c m. max m (dist c)) [(0, 0), (w, 0), (0, h), (w, h)] 0)"

text \<open>
  The gray value of one sampled pixel. \<open>len(pixel_value)\<close> raises on the scalar of a
  grayscale frame; three channels give the truncated luma sum; \<open>int(pixel_value)\<close> works
  for one channel and raises for any other number.
\<close>

definition pixel_gray :: "pixel \<Rightarrow> py_error + int" where
  "pixel_gray p =
     (case p of
        Scalar v \<Rightarrow> Inl TypeError
      | Channels cs \<Rightarrow>
          if length cs = 3
          then Inr (py_int (299 / 1000 * of_int (cs ! 2) + 587 / 1000 * of_int (cs ! 1)
                            + 114 / 1000 * of_int (cs ! 0)))
          else if length cs = 1 then Inr (cs ! 0)
          else Inl TypeError)"

fun gray_values :: "pixel list \<Rightarrow> py_error + int list" where
  "gray_values [] = Inr []"
| "gray_values (p # ps) =
     (case pixel_gray p of
        Inl e \<Rightarrow> Inl e
      | Inr g \<Rightarrow> (case gray_values ps of Inl e \<Rightarrow> Inl e | Inr gs \<Rightarrow> Inr (g # gs)))"

definition extract_radial_scanline ::
  "frame \<Rightarrow> int \<Rightarrow> int \<Rightarrow> rat \<Rightarrow> rat \<Rightarrow> rat option \<Rightarrow> py_error + int list" where
  "extract_radial_scanline f center_x center_y cos_a sin_a max_radius =
     (let r_values = [0..<nat (radius_samples f center_x center_y max_radius)];
          coords = map (radial_point center_x center_y cos_a sin_a) r_values;
          valid = filter (in_frame f) coords
      in if valid = [] then Inr []
         else gray_values (map (pixel_at f) valid))"

subsection \<open>\<open>extract_roi_pixels_circular\<close> (corrected\_audio\_processing.py)\<close>

text \<open>
  The cosine and the sine of an angle in degrees (\<open>np.cos(np.radians(a))\<close>) and the gray
  value that \<open>cv2.cvtColor\<close> gives a pixel are parameters; the conversion of the whole
  frame comes after the position computation and fails on a frame that is not a
  colour frame.
\<close>

record processing_info =
  pi_mode :: string
  pi_angle :: rat
  pi_center :: "int \<times> int"
  pi_radius :: int
  pi_points :: "(int \<times> int) list"
  pi_section :: "int option"

definition extract_roi_pixels_circular ::
  "(rat \<Rightarrow> rat) \<Rightarrow> (rat \<Rightarrow> rat) \<Rightarrow> (pixel \<Rightarrow> int) \<Rightarrow> processor \<Rightarrow> frame \<Rightarrow> int \<times> int \<Rightarrow>
   int \<Rightarrow> int \<Rightarrow> py_error + ((int list \<times> processing_info) \<times> processor)" where
  "extract_roi_pixels_circular cos_deg sin_deg to_gray p f center_coords radius frame_count =
     (case calculate_current_position p frame_count of
        Inl e \<Rightarrow> Inl e
      | Inr ((progress, zodiac_section, angle_degrees), p1) \<Rightarrow>
          if \<not> bgr_frame f then Inl Cv2Error
          else
            let radial_points =
                  map (radial_point (fst center_coords) (snd center_coords)
                         (cos_deg angle_degrees) (sin_deg angle_degrees))
                      [0..<nat radius];
                scanline_values =
                  map (\<lambda>pt. if in_frame f pt then to_gray (pixel_at f pt) else 0) radial_points
            in Inr ((scanline_values,
                     \<lparr> pi_mode = ''radial_circular'', pi_angle = angle_degrees,
                       pi_center = center_coords, pi_radius = radius,
                       pi_points = take 10 radial_points,
                       pi_section = (if cap_zodiac_mode p1 then Some (zodiac_section + 1)
                                     else None) \<rparr>),
                    p1))"

subsection \<open>\<open>AudioProcessor.extract_roi_pixels\<close> (core\_audio\_processing.py)\<close>

record audio_processor =
  ap_zodiac_mode :: bool
  ap_zodiac_range :: int
  ap_time_per_zodiac :: int

definition audio_processor_init :: audio_processor where
  "audio_processor_init = \<lparr> ap_zodiac_mode = True, ap_zodiac_range = 88, ap_time_per_zodiac = 30 \<rparr>"

text \<open>\<open>cv2.rotate(frame, cv2.ROTATE_90_CLOCKWISE)\<close>.\<close>

definition rotate_90_clockwise :: "frame \<Rightarrow> frame" where
  "rotate_90_clockwise f =
     \<lparr> fr_height = fr_width f, fr_width = fr_height f, fr_channels = fr_channels f,
       fr_data = (\<lambda>y x. fr_data f (fr_height f - 1 - x) y) \<rparr>"

text \<open>
  The indices selected by the slice \<open>start:stop\<close> on an axis of length \<open>n\<close>: a negative
  bound counts from the end, and both bounds are clamped to the axis.
\<close>

definition py_slice :: "nat \<Rightarrow> int \<Rightarrow> int \<Rightarrow> nat list" where
  "py_slice n start stop =
     (let clamp = (\<lambda>k. if k < 0 then max 0 (k + int n) else min k (int n))
      in [nat (clamp start)..<nat (clamp stop)])"

definition crop :: "frame \<Rightarrow> int \<Rightarrow> int \<Rightarrow> int \<Rightarrow> int \<Rightarrow> pixel list list" where
  "crop f y0 y1 x0 x1 =
     map (\<lambda>y. map (\<lambda>x. fr_pixel f y x) (py_slice (fr_width f) x0 x1))
         (py_slice (fr_height f) y0 y1)"

text \<open>
  The region is \<open>(x, y, w, h)\<close>. \<open>roi.size == 0\<close> holds when the cropped strip has no
  pixel; the strip is then rejected with \<open>ValueError\<close>. A strip that passes is
  converted to gray, which fails unless it has three or four channels.
\<close>

definition extract_roi_pixels ::
  "(pixel \<Rightarrow> int) \<Rightarrow> audio_processor \<Rightarrow> frame \<Rightarrow> int \<times> int \<times> int \<times> int \<Rightarrow> int \<Rightarrow> int \<Rightarrow>
   py_error + (int list list \<times> (int \<times> int \<times> int \<times> int))" where
  "extract_roi_pixels to_gray a f roi_coords frame_count fps =
     (case roi_coords of (x, y, w, h) \<Rightarrow>
        let vertical_frame = rotate_90_clockwise f
        in if ap_zodiac_mode a then
             let hour_frame = fps * ap_time_per_zodiac a
             in if hour_frame = 0 then Inl ZeroDivisionError
                else
                  let hour_idx = (frame_count div hour_frame) mod 12;
                      zodiac_y = y + hour_idx * ap_zodiac_range a;
                      zodiac_h = ap_zodiac_range a;
                      roi = crop vertical_frame zodiac_y (zodiac_y + zodiac_h) x (x + 1);
                      processing_region = (x, zodiac_y, 1, zodiac_h)
                  in if concat roi = [] then Inl ValueError
                     else if \<not> bgr_channels vertical_frame then Inl Cv2Error
                     else Inr (map (map to_gray) roi, processing_region)
           else
             let roi = crop vertical_frame y (y + h) x (x + 1);
                 processing_region = (x, y, 1, h)
             in if concat roi = [] then Inl ValueError
                else if \<not> bgr_channels vertical_frame then Inl Cv2Error
                else Inr (map (map to_gray) roi, processing_region))"

subsection \<open>Example inputs\<close>

text \<open>
  A two by two colour frame and a four by hundred one, both of the one colour
  \<open>(10, 20, 30)\<close>, the same two by two frame in grayscale, the gray value OpenCV gives a
  colour pixel (its fixed-point weighted sum of red, green and blue), a detector that
  finds three features and one that finds none; they are the concrete inputs of the
  closed theorems below.
\<close>

definition example_frame :: frame where
  "example_frame =
     \<lparr> fr_height = 2, fr_width = 2, fr_channels = Some 3,
       fr_data = (\<lambda>y x c. [10, 20, 30] ! c) \<rparr>"

definition gray_example_frame :: frame where
  "gray_example_frame =
     \<lparr> fr_height = 2, fr_width = 2, fr_channels = None, fr_data = (\<lambda>y x c. 20) \<rparr>"

definition cv_gray :: "pixel \<Rightarrow> int" where
  "cv_gray p =
     (case p of
        Scalar v \<Rightarrow> v
      | Channels cs \<Rightarrow> (cs ! 2 * 4899 + cs ! 1 * 9617 + cs ! 0 * 1868 + 8192) div 16384)"

definition three_features :: orb where
  "three_features f region = ([(1, 1), (2, 1), (1, 2)], Some [[1], [2], [3]])"

definition tall_frame :: frame where
  "tall_frame =
     \<lparr> fr_height = 4, fr_width = 100, fr_channels = Some 3,
       fr_data = (\<lambda>y x c. [10, 20, 30] ! c) \<rparr>"

definition no_features :: orb where
  "no_features f region = ([], None)"

text \<open>
  The exact cosine and sine at the multiples of a quarter turn (the examples use no
  other angle), and the processor after \<open>update_fps_dependent_values\<close> at 2.5 rpm and
  30 frames per second.
\<close>

definition cos_at_axes :: "rat \<Rightarrow> rat" where
  "cos_at_axes a = (if a = 0 then 1 else if a = 180 then - 1 else 0)"

definition sin_at_axes :: "rat \<Rightarrow> rat" where
  "sin_at_axes a = (if a = 90 then 1 else if a = 270 then - 1 else 0)"

definition example_processor :: processor where
  "example_processor =
     \<lparr> cap_rpm = 5 / 2, cap_fps = Some 30, cap_rotation_time = 24,
       cap_zodiac_section_time = 2, cap_frames_per_rotation = Some 720,
       cap_frames_per_zodiac_section = Some 60, cap_zodiac_mode = True \<rparr>"

text \<open>
  The recorder states in which the first rotation of a session started at frame \<open>s\<close> is
  still being recorded, with \<open>n\<close> frames per rotation.
\<close>

definition rec_inv :: "recorder \<Rightarrow> int \<Rightarrow> int \<Rightarrow> bool" where
  "rec_inv r s n \<longleftrightarrow>
     rec_is_recording r \<and> rec_recorded_rotations r = 0 \<and> rec_max_rotations r = 1 \<and>
     cr_frame_start (rec_current_rotation r) = s \<and> rec_frames_per_rotation r = n"

section \<open>Properties of the timing model\<close>

lemma py_int_of_int [simp]: "py_int (of_int k) = k"
  by (simp add: py_int_def)

lemma timing_at_2_5_rpm_30_fps:
  "calculate_timing_parameters (5/2) 30 =
     Inr \<lparr> tp_rpm = 5/2, tp_rotation_time = 24, tp_zodiac_section_time = 2,
           tp_frames_per_rotation = 720, tp_frames_per_zodiac_section = 60,
           tp_degrees_per_frame = 1/2 \<rparr>"
  by (simp add: calculate_timing_parameters_def Let_def py_int_def)

lemma processor_sector_at_2_5_rpm_30_fps:
  "processor_sector (5/2) 30 frame_count = Inr ((frame_count div 60) mod 12)"
  by (simp add: processor_sector_def processor_init_def update_fps_dependent_values_def
      calculate_current_position_def Let_def py_int_def)

lemma zodiac_section_of_half_degree_frames:
  assumes "0 \<le> fc" and "fc < 720" and "tp_degrees_per_frame t = 1/2"
  shows "zodiac_section_of_angle (current_angle t fc) = fc div 60"
proof -
  have a: "(of_int fc * (1/2) / 360 :: rat) = of_int fc / of_int 720" by simp
  have "\<lfloor>(of_int fc * (1/2) / 360 :: rat)\<rfloor> = fc div 720"
    unfolding a by (rule floor_divide_of_int_eq)
  also have "\<dots> = 0" using assms by simp
  finally have f0: "\<lfloor>(of_int fc * (1/2) / 360 :: rat)\<rfloor> = 0" .
  have ca: "current_angle t fc = of_int fc / 2"
    using f0 by (simp add: current_angle_def py_fmod_def assms(3))
  have b: "(of_int fc / 2 / 30 :: rat) = of_int fc / of_int 60" by simp
  have "py_int (of_int fc / 2 / 30) = fc div 60"
    unfolding b using assms(1)
    by (simp add: py_int_def floor_divide_of_int_eq del: of_int_numeral)
  moreover have "0 \<le> fc div 60" "fc div 60 < 12" using assms by auto
  ultimately show ?thesis
    by (simp add: zodiac_section_of_angle_def ca)
qed

lemma loop_sector_at_2_5_rpm_30_fps:
  "0 \<le> fc \<Longrightarrow> fc < 720 \<Longrightarrow> loop_sector (5/2) 30 fc = Inr (fc div 60)"
  by (simp add: loop_sector_def timing_at_2_5_rpm_30_fps zodiac_section_of_half_degree_frames)

text \<open>
  Claim C1. At \<open>rpm = 2.5\<close> and \<open>fps = 30\<close> a rotation has 720 frames; every frame index
  in \<open>[0, 60)\<close> is in sector 0 and every frame index in \<open>[660, 720)\<close> is in sector 11,
  along the processor's integer path and along the frame loop's angle path.
\<close>

theorem scenario_720_frames_twelve_sectors:
  "frames_per_rotation_for (5/2) 30 = Inr 720 \<and>
   (\<forall>fc \<in> {0..<60}. processor_sector (5/2) 30 fc = Inr 0 \<and> loop_sector (5/2) 30 fc = Inr 0) \<and>
   (\<forall>fc \<in> {660..<720}.
      processor_sector (5/2) 30 fc = Inr 11 \<and> loop_sector (5/2) 30 fc = Inr 11)"
proof (intro conjI ballI)
  show "frames_per_rotation_for (5/2) 30 = Inr 720"
    by (simp add: frames_per_rotation_for_def timing_at_2_5_rpm_30_fps)
next
  fix fc :: int assume "fc \<in> {0..<60}"
  then have r: "0 \<le> fc" "fc < 60" by auto
  then have d: "fc div 60 = 0" by simp
  show "processor_sector (5/2) 30 fc = Inr 0"
    by (simp add: processor_sector_at_2_5_rpm_30_fps d)
  show "loop_sector (5/2) 30 fc = Inr 0"
    using r by (simp add: loop_sector_at_2_5_rpm_30_fps)
next
  fix fc :: int assume "fc \<in> {660..<720}"
  then have r: "660 \<le> fc" "fc < 720" by auto
  then have d: "fc div 60 = 11" by presburger
  show "processor_sector (5/2) 30 fc = Inr 11"
    by (simp add: processor_sector_at_2_5_rpm_30_fps d)
  show "loop_sector (5/2) 30 fc = Inr 11"
    using r d by (simp add: loop_sector_at_2_5_rpm_30_fps)
qed

theorem scenario_720_frames_twelve_sectors_witness:
  "(59::int) \<in> {0..<60} \<and> processor_sector (5/2) 30 59 = Inr 0 \<and>
   loop_sector (5/2) 30 59 = Inr 0 \<and>
   (660::int) \<in> {660..<720} \<and> processor_sector (5/2) 30 660 = Inr 11 \<and>
   loop_sector (5/2) 30 660 = Inr 11"
  using scenario_720_frames_twelve_sectors by simp


section \<open>Properties of the rotation recorder\<close>

lemma add_notes_idle: "\<not> rec_is_recording r \<Longrightarrow> add_notes r f ns vs ds roi z = r"
  by (simp add: add_notes_def)

lemma check_idle: "\<not> rec_is_recording r \<Longrightarrow> check_rotation_complete r f = (False, r)"
  by (simp add: check_rotation_complete_def)

lemma fst_run_calls_Check:
  "fst (run_calls r (Check f # cs)) =
     fst (check_rotation_complete r f) # fst (run_calls (snd (check_rotation_complete r f)) cs)"
  by (simp add: case_prod_beta)

lemma run_calls_idle:
  "\<not> rec_is_recording r \<Longrightarrow> fst (run_calls r cs) = replicate (length (check_frames cs)) False"
proof (induction cs)
  case Nil then show ?case by simp
next
  case (Cons c cs)
  then show ?case
    by (cases c) (simp_all add: check_idle add_notes_idle fst_run_calls_Check del: run_calls.simps(2))
qed

lemma add_notes_inv: "rec_inv r s n \<Longrightarrow> rec_inv (add_notes r f ns vs ds roi z) s n"
  by (auto simp: rec_inv_def add_notes_def Let_def split: option.splits)

lemma check_before: "rec_inv r s n \<Longrightarrow> f - s < n \<Longrightarrow> check_rotation_complete r f = (False, r)"
  by (simp add: rec_inv_def check_rotation_complete_def)

lemma check_reached:
  "rec_inv r s n \<Longrightarrow> n \<le> f - s \<Longrightarrow>
     fst (check_rotation_complete r f) \<and> \<not> rec_is_recording (snd (check_rotation_complete r f))"
  by (simp add: rec_inv_def check_rotation_complete_def Let_def stop_recording_def
      save_score_def save_visual_score_def)

lemma run_calls_recording:
  "rec_inv r s n \<Longrightarrow>
     length (fst (run_calls r cs)) = length (check_frames cs) \<and>
     (\<forall>i < length (check_frames cs).
        fst (run_calls r cs) ! i =
          (n \<le> check_frames cs ! i - s \<and> (\<forall>j < i. check_frames cs ! j - s < n)))"
proof (induction cs arbitrary: r)
  case Nil then show ?case by simp
next
  case (Cons c cs)
  show ?case
  proof (cases c)
    case (Add f ns vs ds roi z)
    with Cons.IH [OF add_notes_inv [OF Cons.prems]] show ?thesis by simp
  next
    case (Check f)
    show ?thesis
    proof (cases "n \<le> f - s")
      case False
      then have e: "check_rotation_complete r f = (False, r)"
        using Cons.prems by (simp add: check_before)
      have ih: "length (fst (run_calls r cs)) = length (check_frames cs) \<and>
     (\<forall>i < length (check_frames cs).
        fst (run_calls r cs) ! i =
          (n \<le> check_frames cs ! i - s \<and> (\<forall>j < i. check_frames cs ! j - s < n)))"
        using Cons.IH [OF Cons.prems] .
      show ?thesis
      proof (intro conjI allI impI)
        show "length (fst (run_calls r (c # cs))) = length (check_frames (c # cs))"
          using ih by (simp add: Check e fst_run_calls_Check del: run_calls.simps(2))
      next
        fix i assume "i < length (check_frames (c # cs))"
        then show "fst (run_calls r (c # cs)) ! i =
          (n \<le> check_frames (c # cs) ! i - s \<and> (\<forall>j < i. check_frames (c # cs) ! j - s < n))"
        proof (cases i)
          case 0
          then show ?thesis using False by (simp add: Check e fst_run_calls_Check del: run_calls.simps(2))
        next
          case (Suc k)
          with \<open>i < length (check_frames (c # cs))\<close> have k: "k < length (check_frames cs)"
            by (simp add: Check)
          have "(\<forall>j < Suc k. (f # check_frames cs) ! j - s < n) = (\<forall>j < k. check_frames cs ! j - s < n)"
            using False by (auto simp: less_Suc_eq_0_disj)
          then show ?thesis using ih k False
            by (simp add: Check e Suc fst_run_calls_Check del: run_calls.simps(2))
        qed
      qed
    next
      case True
      obtain b r1 where e: "check_rotation_complete r f = (b, r1)" by (cases "check_rotation_complete r f")
      with check_reached [OF Cons.prems True] have b: "b" and idle: "\<not> rec_is_recording r1" by simp_all
      have rest: "fst (run_calls r1 cs) = replicate (length (check_frames cs)) False"
        using idle by (rule run_calls_idle)
      show ?thesis
      proof (intro conjI allI impI)
        show "length (fst (run_calls r (c # cs))) = length (check_frames (c # cs))"
          using rest by (simp add: Check e fst_run_calls_Check del: run_calls.simps(2))
      next
        fix i assume i: "i < length (check_frames (c # cs))"
        show "fst (run_calls r (c # cs)) ! i =
          (n \<le> check_frames (c # cs) ! i - s \<and> (\<forall>j < i. check_frames (c # cs) ! j - s < n))"
        proof (cases i)
          case 0
          then show ?thesis using True b by (simp add: Check e fst_run_calls_Check del: run_calls.simps(2))
        next
          case (Suc k)
          with i have k: "k < length (check_frames cs)" by (simp add: Check)
          have "\<not> (\<forall>j < Suc k. (f # check_frames cs) ! j - s < n)"
            using True by (auto intro!: exI [of _ 0])
          then show ?thesis using rest k
            by (simp add: Check e Suc fst_run_calls_Check del: run_calls.simps(2))
        qed
      qed
    qed
  qed
qed

lemma start_inv: "rec_max_rotations r0 = 1 \<Longrightarrow> rec_inv (start_recording r0 s scale mode folder) s (rec_frames_per_rotation r0)"
  by (simp add: rec_inv_def start_recording_def)


lemma recorder_init_example:
  "recorder_init (5/2) 30 =
     Inr \<lparr> rec_rpm = 5/2, rec_fps = 30, rec_rotation_time = Some 24,
           rec_frames_per_rotation = 720,
           rec_metadata = \<lparr> md_rpm = 5/2, md_fps = 30, md_rotation_time = 24,
             md_frames_per_rotation = 720, md_scale = None, md_roi_mode = None \<rparr>,
           rec_rotations = [],
           rec_current_rotation = \<lparr> cr_frame_start = 0, cr_notes = [],
             cr_zodiac_sections = [], cr_raw_rois = [] \<rparr>,
           rec_is_recording = False, rec_recorded_rotations = 0, rec_max_rotations = 1,
           rec_is_loaded = False, rec_session_path = None, rec_saved = [] \<rparr>"
  by (simp add: recorder_init_def py_int_def)


text \<open>
  Claim C5. After \<open>start_recording\<close> at frame \<open>s\<close>, over any sequence of \<open>add_notes\<close> and
  \<open>check_rotation_complete\<close> calls, a check returns \<open>True\<close> exactly when it is the first check
  whose relative frame index \<open>frame - s\<close> has reached \<open>frames_per_rotation\<close>: every earlier
  and every later check returns \<open>False\<close>. \<open>add_notes\<close> on a recorder that is not recording
  returns it unchanged.
\<close>

theorem check_complete_true_exactly_once:
  assumes "rec_max_rotations r0 = 1"
  shows "(let r = start_recording r0 s scale roi_mode folder;
              results = fst (run_calls r cs);
              frames = check_frames cs;
              n = rec_frames_per_rotation r0
          in length results = length frames \<and>
             (\<forall>i < length frames.
                results ! i = (n \<le> frames ! i - s \<and> (\<forall>j < i. frames ! j - s < n)))) \<and>
         (\<forall>r. \<not> rec_is_recording r \<longrightarrow> add_notes r f ns vs ds roi z = r)"
  using run_calls_recording [OF start_inv [OF assms], of s scale roi_mode folder cs]
  by (simp add: Let_def add_notes_idle)

theorem check_complete_true_exactly_once_witness:
  "(let r0 = projr (recorder_init (5/2) 30);
        cs = [Check 5, Add 6 [60] [100] [1] (Scanline [7]) (Some 1), Check 724, Check 725,
              Check 2000]
    in rec_max_rotations r0 = 1 \<and>
       fst (run_calls (start_recording r0 5 ''CPentatonic'' ''circular'' ''session'') cs) ! 2 \<and>
       \<not> fst (run_calls (start_recording r0 5 ''CPentatonic'' ''circular'' ''session'') cs) ! 1 \<and>
       \<not> fst (run_calls (start_recording r0 5 ''CPentatonic'' ''circular'' ''session'') cs) ! 3 \<and>
       \<not> rec_is_recording r0 \<and>
       add_notes r0 6 [60] [100] [1] (Scanline [7]) (Some 1) = r0)"
proof -
  let ?r0 = "projr (recorder_init (5/2) 30)"
  let ?cs = "[Check 5, Add 6 [60] [100] [1] (Scanline [7]) (Some 1), Check 724, Check 725,
              Check 2000]"
  let ?res = "fst (run_calls (start_recording ?r0 5 ''CPentatonic'' ''circular'' ''session'') ?cs)"
  have m: "rec_max_rotations ?r0 = 1" by (simp add: recorder_init_example)
  have idle: "\<not> rec_is_recording ?r0" by (simp add: recorder_init_example)
  have n: "rec_frames_per_rotation ?r0 = 720" by (simp add: recorder_init_example)
  have fs: "check_frames ?cs = [5, 724, 725, 2000]" by simp
  note t = check_complete_true_exactly_once [OF m, of 5 "''CPentatonic''" "''circular''"
      "''session''" ?cs 6 "[60]" "[100]" "[1]" "Scanline [7]" "Some 1"]
  from t have nth: "\<forall>i<4. ?res ! i
      = (720 \<le> [5, 724, 725, 2000] ! i - (5::int) \<and> (\<forall>j<i. [5, 724, 725, 2000] ! j - (5::int) < 720))"
    unfolding Let_def fs n by simp
  have j2: "\<And>P. (\<forall>j<2::nat. P j) = (P 0 \<and> P 1)"
    by (auto simp: less_2_cases_iff)
  have j1: "\<And>P. (\<forall>j<1::nat. P j) = P 0"
    by auto
  have j3: "\<And>P. (\<forall>j<3::nat. P j) = (P 0 \<and> P 1 \<and> P 2)"
    by (auto simp: numeral_3_eq_3 numeral_2_eq_2 less_Suc_eq)
  from nth have "?res ! 2" by (simp add: j2)
  moreover from nth have "\<not> ?res ! 1" by (simp add: j1)
  moreover from nth have "\<not> ?res ! 3" by (simp add: j3)
  moreover from t idle have "add_notes ?r0 6 [60] [100] [1] (Scanline [7]) (Some 1) = ?r0"
    by blast
  ultimately show ?thesis using m idle unfolding Let_def by blast
qed


text \<open>
  Claim C4. Playback from a recording that holds raw profiles only is meant to rebuild
  the chord through the mapper. \<open>get_playback_notes_from_npy\<close> selects the profile by
  \<open>frame_count % len(rois)\<close> and hands it to \<open>process_roi_to_midi_data\<close>, which is the
  deprecated stub: whenever the selected profile is not empty the call raises
  \<open>DeprecationWarning\<close> and no chord is returned.
\<close>

theorem playback_from_raw_profiles_raises:
  assumes "rec_rotations r = rot # rest"
    and "rot_raw_rois rot = Some rois"
    and "rois \<noteq> []"
    and "\<forall>roi \<in> set rois. roi_len roi \<noteq> 0"
  shows "get_playback_notes_from_npy r frame_count = Inl DeprecationWarning"
proof -
  have "0 \<le> frame_count mod int (length rois)" "frame_count mod int (length rois) < int (length rois)"
    using assms(3) by simp_all
  then have "nat (frame_count mod int (length rois)) < length rois" by linarith
  then have "roi_len (rois ! nat (frame_count mod int (length rois))) \<noteq> 0"
    using assms(4) nth_mem by blast
  then show ?thesis
    using assms(1-3)
    by (simp add: get_playback_notes_from_npy_def Let_def process_circular_roi_to_midi_data_def
        process_roi_to_midi_data_def)
qed

theorem playback_from_raw_profiles_raises_witness:
  "(let r = snd (projr (load_score_from_session (projr (recorder_init (5/2) 30)) None
                          (Some [[10, 20], [30, 40]])))
    in rec_rotations r =
         [\<lparr> rot_frame_start = None, rot_notes = None, rot_zodiac_sections = None,
            rot_raw_rois = Some [Strip [[10], [30]], Strip [[20], [40]]] \<rparr>] \<and>
       roi_len (Strip [[10], [30]]) \<noteq> 0 \<and> roi_len (Strip [[20], [40]]) \<noteq> 0 \<and>
       get_playback_notes_from_npy r 3 = Inl DeprecationWarning)"
proof -
  let ?r = "snd (projr (load_score_from_session (projr (recorder_init (5/2) 30)) None
                          (Some [[10, 20], [30, 40]])))"
  let ?rois = "[Strip [[10], [30]], Strip [[20], [40]]]"
  have up: "[0..<2] = [0, Suc 0]" by (simp add: upt_rec)
  have rots: "rec_rotations ?r =
         [\<lparr> rot_frame_start = None, rot_notes = None, rot_zodiac_sections = None,
            rot_raw_rois = Some ?rois \<rparr>]"
    by (simp add: load_score_from_session_def load_npy_def rotations_from_npy_def
        array_columns_def recorder_init_example up)
  have nonempty: "\<forall>roi \<in> set ?rois. roi_len roi \<noteq> 0" by simp
  have "get_playback_notes_from_npy ?r 3 = Inl DeprecationWarning"
    by (rule playback_from_raw_profiles_raises [OF rots _ _ nonempty]) simp_all
  then show ?thesis using rots unfolding Let_def by simp
qed

section \<open>Properties of the linear value mapper\<close>

lemma fl_not_nan [simp]: "fl rnd x \<noteq> NaN"
  by (simp add: fl_def Let_def)

lemma np_clip_nan [simp]: "np_clip NaN lo hi = NaN"
  by (simp add: np_clip_def clip_min_def clip_max_def)







lemma full_like_length:
  "length (array_values rnd (np_full_like ci a v)) = length (array_values rnd a)"
  by (cases a) simp_all














section \<open>Properties of the rotation estimator\<close>

text \<open>
  Claim C9, amended. For two consecutive angles in \<open>[-180, 180]\<close>, the range of
  \<open>arctan2\<close> in degrees, the normalised difference lies in the closed interval
  \<open>[-180, 180]\<close>.
\<close>

theorem angle_delta_closed_half_turn:
  assumes "- 180 \<le> last_angle" "last_angle \<le> 180" "- 180 \<le> angle" "angle \<le> 180"
  shows "- 180 \<le> angle_delta angle last_angle \<and> angle_delta angle last_angle \<le> 180"
  using assms by (simp add: angle_delta_def Let_def)


theorem angle_delta_closed_half_turn_witness:
  "- 180 \<le> (170 :: rat) \<and> (170 :: rat) \<le> 180 \<and> - 180 \<le> (- 170 :: rat) \<and> (- 170 :: rat) \<le> 180 \<and>
   angle_delta (- 170) 170 = 20 \<and> - 180 \<le> angle_delta (- 170) 170 \<and> angle_delta (- 170) 170 \<le> 180"
  using angle_delta_closed_half_turn [of 170 "- 170"]
  by (simp add: angle_delta_def)

text \<open>
  The lower bound is attained: a raw difference of exactly \<open>-180\<close> is neither above
  \<open>180\<close> nor below \<open>-180\<close> and is kept, and the rpm is computed from it.
\<close>

theorem angle_delta_counterexample:
  "angle_delta (- 90) 90 = - 180 \<and>
   \<not> (- 180 < angle_delta (- 90) 90 \<and> angle_delta (- 90) 90 \<le> 180) \<and>
   fst (calculate_rpm
          (detector_init 30 30 \<lparr> rd_reference_des := Some [[1]], rd_last_angle := 90 \<rparr>)
          (Some \<lparr> ob_current_des = Some 500, ob_matches = 400, ob_angle = Some (- 90) \<rparr>))
     = 900"
  by (simp add: angle_delta_def calculate_rpm_def detector_init_def deque_append_def np_mean_def Let_def)


lemma example_frame_bgr: "bgr_frame example_frame"
  by (simp add: bgr_frame_def bgr_channels_def example_frame_def)

lemma gray_example_frame_not_bgr: "\<not> bgr_frame gray_example_frame"
  by (simp add: bgr_frame_def bgr_channels_def gray_example_frame_def)

text \<open>
  Claim C8, amended. \<open>set_reference_frame\<close> has no minimum feature count and no error of
  its own. Without a frame the detector is unchanged. On a colour frame (not empty,
  three or four channels) it stores whatever the feature detector finds inside the
  central circular mask, however few features that is, and resets the last angle and
  the rpm buffer; when no descriptors were found, \<open>calculate_rpm\<close> returns \<open>0\<close> afterwards.
  On every other frame (grayscale, empty, another number of channels) the gray
  conversion fails with \<open>cv2.error\<close>. The feature detector is taken to return.
\<close>

theorem set_reference_frame_outcomes:
  "set_reference_frame detect d None = Inr d \<and>
   (\<not> bgr_frame f \<longrightarrow> set_reference_frame detect d (Some f) = Inl Cv2Error) \<and>
   (bgr_frame f \<longrightarrow>
      (\<exists>d'. set_reference_frame detect d (Some f) = Inr d' \<and>
            rd_reference_kp d' = Some (fst (detect f (Some (central_mask f)))) \<and>
            rd_reference_des d' = snd (detect f (Some (central_mask f))) \<and>
            rd_last_angle d' = 0 \<and> rd_rpm_buffer d' = [] \<and>
            (rd_reference_des d' = None \<longrightarrow> calculate_rpm d' current = (0, d'))))"
  by (auto simp: set_reference_frame_def calculate_rpm_def case_prod_beta split: option.splits)

theorem set_reference_frame_outcomes_witness:
  "bgr_frame example_frame \<and>
   set_reference_frame no_features (detector_init 30 30) (Some example_frame)
     = Inr (detector_init 30 30 \<lparr> rd_reference_kp := Some [] \<rparr>) \<and>
   rd_reference_des (detector_init 30 30 \<lparr> rd_reference_kp := Some [] \<rparr>) = None \<and>
   calculate_rpm (detector_init 30 30 \<lparr> rd_reference_kp := Some [] \<rparr>)
     (Some \<lparr> ob_current_des = Some 500, ob_matches = 400, ob_angle = Some 3 \<rparr>)
     = (0, detector_init 30 30 \<lparr> rd_reference_kp := Some [] \<rparr>) \<and>
   \<not> bgr_frame gray_example_frame \<and>
   set_reference_frame no_features (detector_init 30 30) (Some gray_example_frame)
     = Inl Cv2Error \<and>
   set_reference_frame no_features (detector_init 30 30) None = Inr (detector_init 30 30)"
proof -
  let ?cur = "Some \<lparr> ob_current_des = Some 500, ob_matches = 400, ob_angle = Some 3 \<rparr>"
  have e: "set_reference_frame no_features (detector_init 30 30) (Some example_frame)
     = Inr (detector_init 30 30 \<lparr> rd_reference_kp := Some [] \<rparr>)"
    by (simp add: set_reference_frame_def no_features_def detector_init_def example_frame_bgr)
  have n: "rd_reference_des (detector_init 30 30 \<lparr> rd_reference_kp := Some [] \<rparr>) = None"
    by (simp add: detector_init_def)
  from set_reference_frame_outcomes [of no_features "detector_init 30 30" example_frame ?cur]
    example_frame_bgr e n
  have c: "calculate_rpm (detector_init 30 30 \<lparr> rd_reference_kp := Some [] \<rparr>) ?cur
     = (0, detector_init 30 30 \<lparr> rd_reference_kp := Some [] \<rparr>)"
    by auto
  from set_reference_frame_outcomes [of no_features "detector_init 30 30" gray_example_frame]
    gray_example_frame_not_bgr
  have g: "set_reference_frame no_features (detector_init 30 30) (Some gray_example_frame)
     = Inl Cv2Error"
    and o: "set_reference_frame no_features (detector_init 30 30) None = Inr (detector_init 30 30)"
    by blast+
  show ?thesis
    using e n c g o example_frame_bgr gray_example_frame_not_bgr by simp
qed

text \<open>
  With three features, fewer than ten, on a colour frame the reference template is
  established and no error is returned.
\<close>

theorem set_reference_frame_counterexample:
  "set_reference_frame three_features (detector_init 30 30) (Some example_frame)
     = Inr (detector_init 30 30
              \<lparr> rd_reference_kp := Some [(1, 1), (2, 1), (1, 2)],
                rd_reference_des := Some [[1], [2], [3]] \<rparr>) \<and>
   length [[1], [2], [3 :: nat]] < 10"
  by (simp add: set_reference_frame_def three_features_def detector_init_def example_frame_bgr)


section \<open>Properties of the scanline extraction\<close>

lemma example_processor_is_initialised:
  "map_sum id (\<lambda>p. update_fps_dependent_values p 30) (processor_init (5/2) None) = Inr example_processor"
  by (simp add: processor_init_def update_fps_dependent_values_def example_processor_def py_int_def)

lemma py_int_numeral [simp]: "py_int (numeral n) = numeral n"
  using py_int_of_int [of "numeral n"] by simp

lemma py_int_0 [simp]: "py_int 0 = 0"
  by (simp add: py_int_def)

lemma py_int_1 [simp]: "py_int 1 = 1"
  by (simp add: py_int_def)

lemma upt_5: "[0..<5] = [0, 1, 2, 3, 4]"
  by (simp add: upt_rec)

lemma example_pixel_gray: "pixel_gray (Channels [10, 20, 30]) = Inr 21"
  by (simp add: pixel_gray_def py_int_def floor_eq_iff)

lemma upt_3: "[0..<3] = [0, 1, 2]"
  by (simp add: upt_rec)

lemma example_frame_pixel: "fr_pixel example_frame y x = Channels [10, 20, 30]"
  by (simp add: fr_pixel_def example_frame_def upt_3)

lemma example_cv_gray: "cv_gray (Channels [10, 20, 30]) = 22"
  by (simp add: cv_gray_def)

lemma circ_example:
  "extract_roi_pixels_circular cos_at_axes sin_at_axes cv_gray example_processor example_frame
       (0, 0) 5 0
     = Inr (([22, 22, 0, 0, 0],
             \<lparr> pi_mode = ''radial_circular'', pi_angle = 0, pi_center = (0, 0), pi_radius = 5,
               pi_points = [(0, 0), (1, 0), (2, 0), (3, 0), (4, 0)], pi_section = Some 1 \<rparr>),
            example_processor)"
proof -
  have d: "fr_height example_frame = 2" "fr_width example_frame = 2"
    by (simp_all add: example_frame_def)
  show ?thesis
    by (simp add: extract_roi_pixels_circular_def calculate_current_position_def
        example_processor_def Let_def upt_5 radial_point_def cos_at_axes_def sin_at_axes_def
        in_frame_def d pixel_at_def example_frame_pixel example_cv_gray example_frame_bgr)
qed

lemma circ_gray_example:
  "extract_roi_pixels_circular cos_at_axes sin_at_axes cv_gray example_processor
       gray_example_frame (0, 0) 5 0 = Inl Cv2Error"
  by (simp add: extract_roi_pixels_circular_def calculate_current_position_def
      example_processor_def gray_example_frame_not_bgr)

lemma radial_example:
  "extract_radial_scanline example_frame 0 0 1 0 (Some 5) = Inr [21, 21]"
proof -
  have d: "fr_height example_frame = 2" "fr_width example_frame = 2"
    by (simp_all add: example_frame_def)
  show ?thesis
    by (simp add: extract_radial_scanline_def radius_samples_def Let_def upt_5 radial_point_def
        in_frame_def d pixel_at_def example_frame_pixel example_pixel_gray)
qed

lemma radial_zero_example:
  "extract_radial_scanline example_frame 0 0 1 0 (Some 0) = Inr []"
  by (simp add: extract_radial_scanline_def radius_samples_def Let_def)

lemma tall_frame_pixel: "fr_pixel (rotate_90_clockwise tall_frame) y x = Channels [10, 20, 30]"
  by (simp add: fr_pixel_def rotate_90_clockwise_def tall_frame_def upt_3)

lemma rect_example:
  "extract_roi_pixels cv_gray audio_processor_init tall_frame (0, 0, 0, 0) 0 30
     = Inr (replicate 88 [22], (0, 0, 1, 88))"
proof -
  have d: "fr_height (rotate_90_clockwise tall_frame) = 100"
    "fr_width (rotate_90_clockwise tall_frame) = 4"
    "bgr_channels (rotate_90_clockwise tall_frame)"
    by (simp_all add: rotate_90_clockwise_def tall_frame_def bgr_channels_def)
  show ?thesis
    by (auto simp: extract_roi_pixels_def audio_processor_init_def Let_def crop_def
        py_slice_def d tall_frame_pixel example_cv_gray map_replicate_const
        intro: exI [of _ 0])
qed

lemma concat_map_map: "concat (map (map g) xs) = map g (concat xs)"
  by (induction xs) simp_all

lemma circular_total:
  "calculate_current_position p frame_count = Inr (pos, p1) \<Longrightarrow> bgr_frame f \<Longrightarrow>
     \<exists>scan info. extract_roi_pixels_circular cos_deg sin_deg to_gray p f c radius frame_count
        = Inr ((scan, info), p1)"
  by (cases pos) (auto simp: extract_roi_pixels_circular_def Let_def)

lemma circular_not_bgr:
  "calculate_current_position p frame_count = Inr (pos, p1) \<Longrightarrow> \<not> bgr_frame f \<Longrightarrow>
     extract_roi_pixels_circular cos_deg sin_deg to_gray p f c radius frame_count = Inl Cv2Error"
  by (cases pos) (auto simp: extract_roi_pixels_circular_def Let_def)

lemma gray_values_length: "gray_values ps = Inr gs \<Longrightarrow> length gs = length ps"
  by (induction ps arbitrary: gs) (auto split: sum.splits)

lemma gray_values_colour:
  "\<forall>p \<in> set ps. \<exists>cs. p = Channels cs \<and> length cs = 3 \<Longrightarrow> \<exists>gs. gray_values ps = Inr gs"
  by (induction ps) (auto simp: pixel_gray_def)

lemma radial_total:
  assumes "fr_channels f = Some 3"
  shows "\<exists>scan. extract_radial_scanline f cx cy cos_a sin_a max_radius = Inr scan"
proof -
  have "\<exists>gs. gray_values (map (pixel_at f) ps) = Inr gs" for ps
    by (rule gray_values_colour) (use assms in \<open>auto simp: pixel_at_def fr_pixel_def\<close>)
  then show ?thesis
    by (simp add: extract_radial_scanline_def Let_def)
qed


text \<open>
  Claim C3, amended. \<open>extract_roi_pixels_circular\<close> records a sample outside the frame as
  zero, so a profile it returns has exactly \<open>radius\<close> samples. \<open>extract_radial_scanline\<close>
  drops the samples outside the frame: a profile it returns has one sample per position
  inside the frame, at most \<open>int(max_radius)\<close> of them. When the position computation
  returns, the first returns a profile on every colour frame (not empty, three or four
  channels) and fails with \<open>cv2.error\<close> in the gray conversion on every other frame; the
  second returns a profile on every frame with three channels.
\<close>

theorem radial_profile_lengths:
  "(extract_roi_pixels_circular cos_deg sin_deg to_gray p f (cx, cy) radius frame_count
      = Inr ((scan, info), p') \<longrightarrow>
      length scan = nat radius \<and>
      (\<forall>r < nat radius.
         \<not> in_frame f (radial_point cx cy (cos_deg (pi_angle info)) (sin_deg (pi_angle info)) r)
         \<longrightarrow> scan ! r = 0)) \<and>
   (extract_radial_scanline f cx cy cos_a sin_a max_radius = Inr scan2 \<longrightarrow>
      length scan2 =
        length (filter (in_frame f)
                  (map (radial_point cx cy cos_a sin_a)
                       [0..<nat (radius_samples f cx cy max_radius)])) \<and>
      length scan2 \<le> nat (radius_samples f cx cy max_radius)) \<and>
   (calculate_current_position p frame_count = Inr (pos, p1) \<and> bgr_frame f \<longrightarrow>
      (\<exists>s i. extract_roi_pixels_circular cos_deg sin_deg to_gray p f (cx, cy) radius frame_count
         = Inr ((s, i), p1))) \<and>
   (calculate_current_position p frame_count = Inr (pos, p1) \<and> \<not> bgr_frame f \<longrightarrow>
      extract_roi_pixels_circular cos_deg sin_deg to_gray p f (cx, cy) radius frame_count
        = Inl Cv2Error) \<and>
   (fr_channels f = Some 3 \<longrightarrow>
      (\<exists>s. extract_radial_scanline f cx cy cos_a sin_a max_radius = Inr s))"
proof (intro conjI impI)
  assume a: "extract_roi_pixels_circular cos_deg sin_deg to_gray p f (cx, cy) radius frame_count
      = Inr ((scan, info), p')"
  then obtain progress sec angle where
    pos: "calculate_current_position p frame_count = Inr ((progress, sec, angle), p')"
    and sc: "scan = map (\<lambda>pt. if in_frame f pt then to_gray (pixel_at f pt) else 0)
                (map (radial_point cx cy (cos_deg angle) (sin_deg angle)) [0..<nat radius])"
    and an: "pi_angle info = angle"
    by (auto simp: extract_roi_pixels_circular_def Let_def split: sum.splits if_splits)
  show "length scan = nat radius" by (simp add: sc)
  show "\<forall>r < nat radius.
         \<not> in_frame f (radial_point cx cy (cos_deg (pi_angle info)) (sin_deg (pi_angle info)) r)
         \<longrightarrow> scan ! r = 0"
    by (simp add: sc an)
next
  assume b: "extract_radial_scanline f cx cy cos_a sin_a max_radius = Inr scan2"
  let ?valid = "filter (in_frame f)
                  (map (radial_point cx cy cos_a sin_a)
                       [0..<nat (radius_samples f cx cy max_radius)])"
  have len: "length scan2 = length ?valid"
  proof (cases "?valid = []")
    case True
    with b show ?thesis by (simp add: extract_radial_scanline_def Let_def)
  next
    case False
    with b have "gray_values (map (pixel_at f) ?valid) = Inr scan2"
      by (simp add: extract_radial_scanline_def Let_def)
    then show ?thesis by (simp add: gray_values_length [of "map (pixel_at f) ?valid" scan2])
  qed
  show "length scan2 = length ?valid" by (rule len)
  have "length ?valid \<le> length (map (radial_point cx cy cos_a sin_a)
                       [0..<nat (radius_samples f cx cy max_radius)])"
    by (rule length_filter_le)
  then show "length scan2 \<le> nat (radius_samples f cx cy max_radius)"
    using len by simp
next
  assume "calculate_current_position p frame_count = Inr (pos, p1) \<and> bgr_frame f"
  then show "\<exists>s i. extract_roi_pixels_circular cos_deg sin_deg to_gray p f (cx, cy) radius
      frame_count = Inr ((s, i), p1)"
    by (simp add: circular_total)
next
  assume "calculate_current_position p frame_count = Inr (pos, p1) \<and> \<not> bgr_frame f"
  then show "extract_roi_pixels_circular cos_deg sin_deg to_gray p f (cx, cy) radius
      frame_count = Inl Cv2Error"
    by (simp add: circular_not_bgr)
next
  assume "fr_channels f = Some 3"
  then show "\<exists>s. extract_radial_scanline f cx cy cos_a sin_a max_radius = Inr s"
    by (rule radial_total)
qed

theorem radial_profile_lengths_witness:
  "extract_roi_pixels_circular cos_at_axes sin_at_axes cv_gray example_processor example_frame
       (0, 0) 5 0
     = Inr (([22, 22, 0, 0, 0],
             \<lparr> pi_mode = ''radial_circular'', pi_angle = 0, pi_center = (0, 0), pi_radius = 5,
               pi_points = [(0, 0), (1, 0), (2, 0), (3, 0), (4, 0)], pi_section = Some 1 \<rparr>),
            example_processor) \<and>
   length [22, 22, 0, 0, 0 :: int] = nat 5 \<and>
   (2 :: nat) < nat 5 \<and>
   \<not> in_frame example_frame (radial_point 0 0 (cos_at_axes 0) (sin_at_axes 0) 2) \<and>
   [22, 22, 0, 0, 0 :: int] ! 2 = 0 \<and>
   extract_radial_scanline example_frame 0 0 1 0 (Some 5) = Inr [21, 21] \<and>
   length [21, 21 :: int] \<le> nat (radius_samples example_frame 0 0 (Some 5)) \<and>
   calculate_current_position example_processor 0 = Inr ((0, 0, 0), example_processor) \<and>
   bgr_frame example_frame \<and> fr_channels example_frame = Some 3 \<and>
   \<not> bgr_frame gray_example_frame \<and>
   extract_roi_pixels_circular cos_at_axes sin_at_axes cv_gray example_processor
       gray_example_frame (0, 0) 5 0 = Inl Cv2Error"
proof -
  have pos: "calculate_current_position example_processor 0 = Inr ((0, 0, 0), example_processor)"
    by (simp add: calculate_current_position_def example_processor_def)
  have col: "fr_channels example_frame = Some 3"
    by (simp add: example_frame_def)
  have out: "\<not> in_frame example_frame (radial_point 0 0 (cos_at_axes 0) (sin_at_axes 0) 2)"
    by (simp add: in_frame_def radial_point_def cos_at_axes_def example_frame_def)
  note t = radial_profile_lengths [where cos_deg = cos_at_axes and sin_deg = sin_at_axes
      and to_gray = cv_gray and p = example_processor and f = example_frame and cx = 0
      and cy = 0 and radius = 5 and frame_count = 0 and scan = "[22, 22, 0, 0, 0]"
      and p' = example_processor and cos_a = 1 and sin_a = 0 and max_radius = "Some 5"
      and ?scan2.0 = "[21, 21]"]
  note g = radial_profile_lengths [where cos_deg = cos_at_axes and sin_deg = sin_at_axes
      and to_gray = cv_gray and p = example_processor and f = gray_example_frame and cx = 0
      and cy = 0 and radius = 5 and frame_count = 0 and pos = "(0, 0, 0)"
      and ?p1.0 = example_processor]
  from t circ_example have "length [22, 22, 0, 0, 0 :: int] = nat 5" by blast
  moreover from t radial_example
  have "length [21, 21 :: int] \<le> nat (radius_samples example_frame 0 0 (Some 5))" by blast
  moreover from g pos gray_example_frame_not_bgr
  have "extract_roi_pixels_circular cos_at_axes sin_at_axes cv_gray example_processor
       gray_example_frame (0, 0) 5 0 = Inl Cv2Error" by blast
  ultimately show ?thesis
    using circ_example radial_example pos col out example_frame_bgr gray_example_frame_not_bgr
    by simp
qed

text \<open>
  On a two by two frame, scanned from the corner along the first row with
  \<open>max_radius = 5\<close>, \<open>extract_radial_scanline\<close> returns two samples, not five.
\<close>

theorem radial_profile_length_counterexample:
  "extract_radial_scanline example_frame 0 0 1 0 (Some 5) = Inr [21, 21] \<and>
   length [21, 21 :: int] \<noteq> 5"
  using radial_example by simp

text \<open>
  Claim C7, amended. The rectangular variant never returns an empty strip: a strip
  without pixels is rejected with \<open>ValueError\<close>, as is every region of height zero
  outside zodiac mode (in zodiac mode the width and height of the region are not
  read). The radial variant \<open>extract_radial_scanline\<close> returns the empty profile as a
  result whenever no sample lies inside the frame, in particular for a radius of zero.
\<close>

theorem empty_region_handling:
  "(extract_roi_pixels to_gray a f roi_coords frame_count fps = Inr (roi_gray, region)
      \<longrightarrow> concat roi_gray \<noteq> []) \<and>
   (\<not> ap_zodiac_mode a \<longrightarrow>
      extract_roi_pixels to_gray a f (x, y, w, 0) frame_count fps = Inl ValueError) \<and>
   (filter (in_frame f)
      (map (radial_point cx cy cos_a sin_a) [0..<nat (radius_samples f cx cy max_radius)]) = []
      \<longrightarrow> extract_radial_scanline f cx cy cos_a sin_a max_radius = Inr []) \<and>
   (radius_samples f cx cy max_radius \<le> 0
      \<longrightarrow> extract_radial_scanline f cx cy cos_a sin_a max_radius = Inr [])"
proof (intro conjI impI)
  assume "extract_roi_pixels to_gray a f roi_coords frame_count fps = Inr (roi_gray, region)"
  then obtain roi where "roi_gray = map (map to_gray) roi" and "concat roi \<noteq> []"
    by (auto simp: extract_roi_pixels_def Let_def split: prod.splits if_splits)
  then show "concat roi_gray \<noteq> []" by (simp add: concat_map_map)
next
  assume "\<not> ap_zodiac_mode a"
  then show "extract_roi_pixels to_gray a f (x, y, w, 0) frame_count fps = Inl ValueError"
    by (simp add: extract_roi_pixels_def Let_def crop_def py_slice_def)
next
  assume "filter (in_frame f)
      (map (radial_point cx cy cos_a sin_a) [0..<nat (radius_samples f cx cy max_radius)]) = []"
  then show "extract_radial_scanline f cx cy cos_a sin_a max_radius = Inr []"
    by (simp add: extract_radial_scanline_def Let_def)
next
  assume "radius_samples f cx cy max_radius \<le> 0"
  then show "extract_radial_scanline f cx cy cos_a sin_a max_radius = Inr []"
    by (simp add: extract_radial_scanline_def Let_def)
qed


theorem empty_region_handling_witness:
  "extract_roi_pixels cv_gray audio_processor_init tall_frame (0, 0, 0, 0) 0 30
     = Inr (replicate 88 [22], (0, 0, 1, 88)) \<and>
   concat (replicate 88 [22 :: int]) \<noteq> [] \<and>
   \<not> ap_zodiac_mode (audio_processor_init \<lparr> ap_zodiac_mode := False \<rparr>) \<and>
   extract_roi_pixels cv_gray (audio_processor_init \<lparr> ap_zodiac_mode := False \<rparr>) tall_frame
     (0, 0, 1, 0) 0 30 = Inl ValueError \<and>
   radius_samples example_frame 0 0 (Some 0) \<le> 0 \<and>
   filter (in_frame example_frame)
     (map (radial_point 0 0 1 0) [0..<nat (radius_samples example_frame 0 0 (Some 0))]) = [] \<and>
   extract_radial_scanline example_frame 0 0 1 0 (Some 0) = Inr []"
proof -
  have z: "\<not> ap_zodiac_mode (audio_processor_init \<lparr> ap_zodiac_mode := False \<rparr>)" by simp
  have r0: "radius_samples example_frame 0 0 (Some 0) \<le> 0" by (simp add: radius_samples_def)
  note t1 = empty_region_handling [where to_gray = cv_gray and a = audio_processor_init
      and f = tall_frame and roi_coords = "(0, 0, 0, 0)" and frame_count = 0 and fps = 30
      and roi_gray = "replicate 88 [22]" and region = "(0, 0, 1, 88)"]
  note t2 = empty_region_handling [where to_gray = cv_gray
      and a = "audio_processor_init \<lparr> ap_zodiac_mode := False \<rparr>"
      and f = tall_frame and frame_count = 0 and fps = 30 and x = 0 and y = 0 and w = 1]
  note t3 = empty_region_handling [where f = example_frame and cx = 0 and cy = 0
      and cos_a = 1 and sin_a = 0 and max_radius = "Some 0"]
  from t1 rect_example have a: "concat (replicate 88 [22 :: int]) \<noteq> []" by blast
  from t2 z have b: "extract_roi_pixels cv_gray (audio_processor_init \<lparr> ap_zodiac_mode := False \<rparr>)
     tall_frame (0, 0, 1, 0) 0 30 = Inl ValueError" by blast
  from t3 r0 have c: "extract_radial_scanline example_frame 0 0 1 0 (Some 0) = Inr []" by blast
  show ?thesis using a b c z r0 rect_example by (simp add: radius_samples_def)
qed

text \<open>
  A radial scan of length zero succeeds with the empty profile, and in zodiac mode a
  region of zero width and height succeeds with a full strip of 88 samples.
\<close>

theorem empty_region_counterexample:
  "extract_radial_scanline example_frame 0 0 1 0 (Some 0) = Inr [] \<and>
   extract_roi_pixels cv_gray audio_processor_init tall_frame (0, 0, 0, 0) 0 30
     = Inr (replicate 88 [22], (0, 0, 1, 88))"
  using radial_zero_example rect_example by simp

section \<open>Properties of the pixel to music mapper\<close>

lemma argmin_less: "xs \<noteq> [] \<Longrightarrow> argmin xs < length xs"
  by (induction xs rule: argmin.induct) (auto simp: Let_def)

lemma nearest_available:
  "available \<noteq> [] \<Longrightarrow> available ! argmin (map (\<lambda>n. \<bar>n - p\<bar>) available) \<in> set available"
  using argmin_less [of "map (\<lambda>n. \<bar>n - p\<bar>) available"] by simp

lemma add_candidates_notes:
  "available \<noteq> [] \<Longrightarrow>
     fst ` set (add_candidates available vr thr rows cands) \<subseteq> fst ` set cands \<union> set available"
proof (induction rows arbitrary: cands)
  case Nil
  then show ?case by simp
next
  case (Cons row rows)
  obtain p m where row: "row = (p, m)" by (cases row)
  have near: "available ! argmin (map (\<lambda>n. \<bar>n - p\<bar>) available) \<in> set available"
    using Cons.prems by (rule nearest_available)
  show ?case
  proof (cases m)
    case None
    then show ?thesis using Cons.IH [OF Cons.prems, of cands] by (simp add: row)
  next
    case (Some v)
    show ?thesis
      using Cons.IH [OF Cons.prems, of cands]
        Cons.IH [OF Cons.prems,
          of "cands @ [(available ! argmin (map (\<lambda>n. \<bar>n - p\<bar>) available),
                        np_interp v (100, 255) vr)]"] near
      by (auto simp: row Some Let_def)
  qed
qed







lemma py_take_length: "0 \<le> n \<Longrightarrow> int (length (py_take n xs)) \<le> n"
  by (simp add: py_take_def)

lemma py_take_subset: "set (py_take n xs) \<subseteq> set xs"
  by (auto simp: py_take_def dest: in_set_takeD)


lemma shuffle_from_set:
  "k < length xs \<Longrightarrow> set (shuffle_from rb k xs) = set xs \<and> length (shuffle_from rb k xs) = length xs"
proof (induction k arbitrary: xs)
  case 0
  then show ?case by simp
next
  case (Suc k)
  let ?j = "rb (Suc k) mod (Suc k + 1)"
  have "?j < Suc k + 1" by (rule mod_less_divisor) simp
  then have j: "?j < length xs" using Suc.prems by linarith
  let ?ys = "xs[Suc k := xs ! ?j, ?j := xs ! Suc k]"
  have s: "set ?ys = set xs" using Suc.prems j by (simp add: set_swap)
  have l: "length ?ys = length xs" by simp
  have "k < length ?ys" using Suc.prems by simp
  from Suc.IH [OF this] s l show ?case by (simp add: Let_def)
qed

lemma random_shuffle_set: "set (random_shuffle rb xs) = set xs"
proof (cases xs)
  case Nil
  then show ?thesis by (simp add: random_shuffle_def)
next
  case (Cons x ys)
  then have "length xs - 1 < length xs" by simp
  from shuffle_from_set [OF this, of rb] show ?thesis by (simp add: random_shuffle_def)
qed


lemma set_piano_notes: "set piano_notes = {21..108}"
  by (simp only: piano_notes_def set_rev set_upto)

lemma length_piano_notes: "length piano_notes = 88"
  by (simp only: piano_notes_def length_rev length_upto)


lemma select_notes_subset: "set (select_notes mode n rb cands) \<subseteq> set cands"
proof (cases "mode = ''random''")
  case True
  then show ?thesis
    using py_take_subset [of n "random_shuffle rb cands"]
    by (simp add: select_notes_def random_shuffle_set)
next
  case False
  then show ?thesis
    using py_take_subset [of n "sort_key (\<lambda>c. - snd c) cands"]
    by (simp add: select_notes_def)
qed

lemma select_notes_length: "0 \<le> n \<Longrightarrow> int (length (select_notes mode n rb cands)) \<le> n"
  by (simp add: select_notes_def py_take_length)


lemma set_available_notes: "set (available_notes scale_notes) = set scale_notes \<inter> {21..108}"
  by (auto simp: available_notes_def set_piano_notes)

lemma generate_cases:
  "generate_midi_from_roi rr rb rnd roi_gray cfg = ([], [], []) \<or>
   (\<exists>roi cands.
      roi_gray = Some roi \<and> concat roi \<noteq> [] \<and>
      available_notes (config_scale_notes cfg) \<noteq> [] \<and>
      cands = add_candidates (available_notes (config_scale_notes cfg))
                (config_velocity_range cfg) (config_velocity_threshold cfg)
                (candidate_rows (roi_magnitudes rr roi)) [] \<and>
      cands \<noteq> [] \<and>
      generate_midi_from_roi rr rb rnd roi_gray cfg
        = output_chord rnd
            (select_notes (config_sampling_mode cfg) (config_note_count_max cfg) rb cands))"
  by (cases roi_gray) (simp_all add: generate_midi_from_roi_def Let_def)

lemma output_chord_parts:
  "output_chord rnd final = (notes, vels, durs) \<Longrightarrow>
     notes = map fst final \<and> vels = map (\<lambda>c. py_int (snd c)) final \<and> length durs = length final"
  by (auto simp: output_chord_def Let_def)











lemma dark_default_chord:
  "generate_midi_from_roi nearest_row first_draw mid_draw (Some (uniform_roi 1 0)) default_config
     = ([108, 107, 106, 105, 104], [127, 127, 127, 127, 127], [1750, 1750, 1750, 1750, 1750])"
  by code_simp


lemma dark_three_note_chord:
  "generate_midi_from_roi nearest_row first_draw mid_draw (Some (uniform_roi 1 0)) three_note_config
     = ([64, 62], [127, 127], [1750, 1750])"
  by code_simp




lemma default_config_values:
  "config_note_count_max default_config = 5"
  "config_velocity_range default_config = (32, 127)"
  "config_velocity_threshold default_config = 32"
  "config_scale_notes default_config = [21..108]"
  by (simp_all add: default_config_def config_note_count_max_def config_velocity_range_def
      config_velocity_threshold_def config_scale_notes_def del: upto.simps)


text \<open>
  Claim C2, amended. For every region, configuration, resize function and random
  source, when the configured \<open>note_count_max\<close> is not negative the returned chord has at
  most that many notes, its three lists have the same length, and every note is in
  the configured scale and in the piano range 21 to 108.
\<close>

theorem chord_bounded_and_in_scale:
  assumes "0 \<le> config_note_count_max cfg"
    and "generate_midi_from_roi resize_row randbelow random roi_gray cfg = (notes, velocities, durations)"
  shows "int (length notes) \<le> config_note_count_max cfg \<and>
         length velocities = length notes \<and> length durations = length notes \<and>
         set notes \<subseteq> set (config_scale_notes cfg) \<inter> {21..108}"
  using generate_cases [of resize_row randbelow random roi_gray cfg]
proof
  assume "generate_midi_from_roi resize_row randbelow random roi_gray cfg = ([], [], [])"
  then show ?thesis using assms by simp
next
  assume "\<exists>roi cands.
      roi_gray = Some roi \<and> concat roi \<noteq> [] \<and>
      available_notes (config_scale_notes cfg) \<noteq> [] \<and>
      cands = add_candidates (available_notes (config_scale_notes cfg))
                (config_velocity_range cfg) (config_velocity_threshold cfg)
                (candidate_rows (roi_magnitudes resize_row roi)) [] \<and>
      cands \<noteq> [] \<and>
      generate_midi_from_roi resize_row randbelow random roi_gray cfg
        = output_chord random
            (select_notes (config_sampling_mode cfg) (config_note_count_max cfg) randbelow cands)"
  then obtain roi cands where
    av: "available_notes (config_scale_notes cfg) \<noteq> []"
    and cands: "cands = add_candidates (available_notes (config_scale_notes cfg))
                (config_velocity_range cfg) (config_velocity_threshold cfg)
                (candidate_rows (roi_magnitudes resize_row roi)) []"
    and out: "generate_midi_from_roi resize_row randbelow random roi_gray cfg
        = output_chord random
            (select_notes (config_sampling_mode cfg) (config_note_count_max cfg) randbelow cands)"
    by blast
  let ?final = "select_notes (config_sampling_mode cfg) (config_note_count_max cfg) randbelow cands"
  from out assms(2) have "output_chord random ?final = (notes, velocities, durations)" by simp
  from output_chord_parts [OF this]
  have n: "notes = map fst ?final" and v: "velocities = map (\<lambda>c. py_int (snd c)) ?final"
    and d: "length durations = length ?final" by simp_all
  have "fst ` set cands \<subseteq> set (available_notes (config_scale_notes cfg))"
    using add_candidates_notes [OF av, of "config_velocity_range cfg" "config_velocity_threshold cfg"
        "candidate_rows (roi_magnitudes resize_row roi)" "[]"]
    by (simp add: cands)
  moreover have "set ?final \<subseteq> set cands" by (rule select_notes_subset)
  ultimately have "set notes \<subseteq> set (config_scale_notes cfg) \<inter> {21..108}"
    unfolding n set_available_notes by auto
  moreover have "int (length notes) \<le> config_note_count_max cfg"
    unfolding n using select_notes_length [OF assms(1)] by simp
  ultimately show ?thesis using n v d by simp
qed

theorem chord_bounded_and_in_scale_witness:
  "0 \<le> config_note_count_max default_config \<and>
   generate_midi_from_roi nearest_row first_draw mid_draw (Some (uniform_roi 1 0)) default_config
     = ([108, 107, 106, 105, 104], [127, 127, 127, 127, 127], [1750, 1750, 1750, 1750, 1750]) \<and>
   int (length [108, 107, 106, 105, 104 :: int]) \<le> config_note_count_max default_config \<and>
   set [108, 107, 106, 105, 104] \<subseteq> set (config_scale_notes default_config) \<inter> {21..108}"
proof -
  have n: "0 \<le> config_note_count_max default_config" by (simp add: default_config_values)
  from chord_bounded_and_in_scale [OF n dark_default_chord] n dark_default_chord
  show ?thesis by blast
qed

text \<open>
  With \<open>note_count_max = -1\<close> the slice \<open>candidates[:-1]\<close> drops the last candidate only: a
  three-note scale gives a chord of two notes.
\<close>

theorem chord_bound_counterexample:
  "config_note_count_max three_note_config = - 1 \<and>
   generate_midi_from_roi nearest_row first_draw mid_draw (Some (uniform_roi 1 0)) three_note_config
     = ([64, 62], [127, 127], [1750, 1750]) \<and>
   \<not> int (length [64, 62 :: int]) \<le> - 1"
  using dark_three_note_chord
  by (simp add: three_note_config_def config_note_count_max_def)





end
